theory Spec2Isabelle
  imports Complex_Main "HOL-Library.Char_ord" "HOL-Library.List_Lexorder"
    "HOL-Library.Product_Lexorder"
begin

section \<open>Python values, strings and conversions\<close>

text \<open>
  The records of the sales analytics system are Python dictionaries from field names to
  dynamically typed values. A value is \<open>None\<close>, a boolean, an integer, a float or a
  string. Integers are unbounded (\<open>int\<close>). A float is modelled by the rational number it
  denotes: rounding, infinities and NaN are not part of the model, so every statement
  about sums and products below is a statement about exact arithmetic. A string is a list
  of characters with code points below 256.
\<close>

datatype pyval = VNone | VBool bool | VInt int | VFloat rat | VStr string

datatype pyerr = KeyError | ValueError | TypeError | FileNotFoundError

type_synonym txn = "string \<rightharpoonup> pyval"

subsection \<open>String methods\<close>

definition is_space :: "char \<Rightarrow> bool" where
  \<comment> \<open>\<open>str.isspace\<close> on the code points below 256\<close>
  "is_space c = ((of_char c :: nat) \<in> {9, 10, 11, 12, 13, 28, 29, 30, 31, 32, 133, 160})"

definition is_digit :: "char \<Rightarrow> bool" where
  "is_digit c = (48 \<le> (of_char c :: nat) \<and> (of_char c :: nat) \<le> 57)"

definition lstrip :: "string \<Rightarrow> string" where
  "lstrip s = dropWhile is_space s"

definition rstrip :: "string \<Rightarrow> string" where
  "rstrip s = rev (dropWhile is_space (rev s))"

definition strip :: "string \<Rightarrow> string" where
  "strip s = rstrip (lstrip s)"

definition startswith :: "string \<Rightarrow> string \<Rightarrow> bool" where
  \<comment> \<open>\<open>s.startswith(p)\<close>\<close>
  "startswith s p = (take (length p) s = p)"

fun join :: "string \<Rightarrow> string list \<Rightarrow> string" where
  "join sep [] = []"
| "join sep [x] = x"
| "join sep (x # y # ys) = x @ sep @ join sep (y # ys)"

subsection \<open>Printing numbers\<close>

definition digit_char :: "nat \<Rightarrow> char" where
  \<comment> \<open>the character of a decimal digit\<close>
  "digit_char d = ''0123456789'' ! (d mod 10)"

fun nat_digits :: "nat \<Rightarrow> string" where
  "nat_digits n = (if n < 10 then [digit_char n] else nat_digits (n div 10) @ [digit_char (n mod 10)])"

declare nat_digits.simps [simp del]

definition str_int :: "int \<Rightarrow> string" where
  "str_int i = (if i < 0 then CHR ''-'' # nat_digits (nat (- i)) else nat_digits (nat i))"

fun frac_digits :: "nat \<Rightarrow> rat \<Rightarrow> string" where
  \<comment> \<open>the decimal digits of a fraction in \<open>[0, 1)\<close>, at most \<open>k\<close> of them\<close>
  "frac_digits k r =
     (if k = 0 \<or> r = 0 then []
      else digit_char (nat \<lfloor>r * 10\<rfloor>) # frac_digits (k - 1) (r * 10 - of_int \<lfloor>r * 10\<rfloor>))"

declare frac_digits.simps [simp del]

definition float_repr :: "rat \<Rightarrow> string" where
  \<comment> \<open>\<open>repr\<close> of a float, idealised: the decimal expansion of the rational, with at least
      one and at most 17 digits after the point\<close>
  "float_repr r =
     (let a = \<bar>r\<bar>; ip = \<lfloor>a\<rfloor>; fd = frac_digits 17 (a - of_int ip)
      in (if r < 0 then ''-'' else '''') @ nat_digits (nat ip) @ ''.'' @ (if fd = [] then ''0'' else fd))"

definition py_str :: "pyval \<Rightarrow> string" where
  "py_str v = (case v of
       VNone \<Rightarrow> ''None''
     | VBool b \<Rightarrow> (if b then ''True'' else ''False'')
     | VInt i \<Rightarrow> str_int i
     | VFloat r \<Rightarrow> float_repr r
     | VStr s \<Rightarrow> s)"

definition py_bool :: "pyval \<Rightarrow> bool" where
  "py_bool v = (case v of
       VNone \<Rightarrow> False
     | VBool b \<Rightarrow> b
     | VInt i \<Rightarrow> i \<noteq> 0
     | VFloat r \<Rightarrow> r \<noteq> 0
     | VStr s \<Rightarrow> s \<noteq> [])"

subsection \<open>Parsing numbers\<close>

definition digit_val :: "char \<Rightarrow> nat" where
  "digit_val c = of_char c - 48"

fun ok_digits :: "string \<Rightarrow> bool" where
  \<comment> \<open>a non-empty run of digits, single underscores allowed between two digits\<close>
  "ok_digits [] = False"
| "ok_digits [c] = is_digit c"
| "ok_digits (c # d # cs) =
     (is_digit c \<and> (if d = CHR ''_'' then ok_digits cs else ok_digits (d # cs)))"

definition digits_val :: "string \<Rightarrow> nat" where
  "digits_val s = foldl (\<lambda>a c. 10 * a + digit_val c) 0 (filter is_digit s)"

definition split_sign :: "string \<Rightarrow> bool \<times> string" where
  "split_sign s = (case s of
       [] \<Rightarrow> (False, [])
     | c # cs \<Rightarrow> if c = CHR ''-'' then (True, cs) else if c = CHR ''+'' then (False, cs) else (False, s))"

definition int_of_string :: "string \<Rightarrow> pyerr + int" where
  \<comment> \<open>\<open>int(s)\<close> for a string, base 10\<close>
  "int_of_string s =
     (let (neg, body) = split_sign (strip s)
      in if ok_digits body
         then Inr (if neg then - int (digits_val body) else int (digits_val body))
         else Inl ValueError)"

definition is_digit_or_us :: "char \<Rightarrow> bool" where
  "is_digit_or_us c = (is_digit c \<or> c = CHR ''_'')"

definition float_of_string :: "string \<Rightarrow> pyerr + rat" where
  \<comment> \<open>\<open>float(s)\<close> for a string spelling a finite decimal number: sign, digits, optional
      fraction, optional exponent. The spellings of infinity and NaN denote no value of
      the model.\<close>
  "float_of_string s =
     (let (neg, body) = split_sign (strip s);
          ip = takeWhile is_digit_or_us body;
          r1 = dropWhile is_digit_or_us body;
          has_point = (r1 \<noteq> [] \<and> hd r1 = CHR ''.'');
          r2 = (if has_point then tl r1 else r1);
          fp = takeWhile is_digit_or_us r2;
          r3 = dropWhile is_digit_or_us r2;
          has_exp = (r3 \<noteq> [] \<and> (hd r3 = CHR ''e'' \<or> hd r3 = CHR ''E''));
          (eneg, ed) = (if has_exp then split_sign (tl r3) else (False, []));
          nfrac = length (filter is_digit fp);
          mant = (of_nat (digits_val ip) + of_nat (digits_val fp) / 10 ^ nfrac :: rat);
          scaled = (if eneg then mant / 10 ^ digits_val ed else mant * 10 ^ digits_val ed)
      in if (ip = [] \<or> ok_digits ip) \<and> (fp = [] \<or> ok_digits fp) \<and> (ip \<noteq> [] \<or> fp \<noteq> [])
            \<and> (fp = [] \<or> has_point)
            \<and> (if has_exp then ok_digits ed else r3 = [])
         then Inr (if neg then - scaled else scaled)
         else Inl ValueError)"

definition py_int :: "pyval \<Rightarrow> pyerr + int" where
  \<comment> \<open>\<open>int(v)\<close>: a float is truncated towards zero\<close>
  "py_int v = (case v of
       VNone \<Rightarrow> Inl TypeError
     | VBool b \<Rightarrow> Inr (if b then 1 else 0)
     | VInt i \<Rightarrow> Inr i
     | VFloat r \<Rightarrow> Inr (if r < 0 then - \<lfloor>- r\<rfloor> else \<lfloor>r\<rfloor>)
     | VStr s \<Rightarrow> int_of_string s)"

definition py_float :: "pyval \<Rightarrow> pyerr + rat" where
  "py_float v = (case v of
       VNone \<Rightarrow> Inl TypeError
     | VBool b \<Rightarrow> Inr (if b then 1 else 0)
     | VInt i \<Rightarrow> Inr (of_int i)
     | VFloat r \<Rightarrow> Inr r
     | VStr s \<Rightarrow> float_of_string s)"

subsection \<open>Dictionary access\<close>

definition dict_get :: "txn \<Rightarrow> string \<Rightarrow> pyval \<Rightarrow> pyval" where
  \<comment> \<open>\<open>t.get(k, d)\<close>\<close>
  "dict_get t k d = (case t k of None \<Rightarrow> d | Some v \<Rightarrow> v)"


definition str_field :: "txn \<Rightarrow> string \<Rightarrow> string" where
  \<comment> \<open>\<open>str(t.get(k, '')).strip()\<close>\<close>
  "str_field t k = strip (py_str (dict_get t k (VStr [])))"

section \<open>Validation and filtering (utils/file\_handler.py)\<close>

definition EXPECTED_HEADERS :: "string list" where
  "EXPECTED_HEADERS = [''TransactionID'', ''Date'', ''ProductID'', ''ProductName'',
     ''Quantity'', ''UnitPrice'', ''CustomerID'', ''Region'']"

text \<open>
  The loop of \<open>validate_and_filter\<close> leaves an iteration at seven places with
  \<open>invalid_count += 1; continue\<close>. Each of them is a constructor of \<open>rejection\<close>, in the
  order in which the source tests them.
\<close>

datatype rejection =
    MissingField | BlankField | NotConvertible | NotPositive
  | BadTransactionID | BadProductID | BadCustomerID


















definition rule_number :: "rejection \<Rightarrow> nat" where
  "rule_number why = (case why of
       MissingField \<Rightarrow> 1 | BlankField \<Rightarrow> 2 | NotConvertible \<Rightarrow> 3 | NotPositive \<Rightarrow> 3
     | BadTransactionID \<Rightarrow> 4 | BadProductID \<Rightarrow> 4 | BadCustomerID \<Rightarrow> 4)"

section \<open>Aggregation (utils/data\_processor.py)\<close>

text \<open>
  A Python dictionary keeps its keys in the order of their first insertion, and the
  aggregation functions iterate over their dictionaries. Such a dictionary is an
  association list with distinct keys in insertion order.
\<close>

fun dict_update :: "'k \<Rightarrow> ('v \<Rightarrow> 'v) \<Rightarrow> 'v \<Rightarrow> ('k \<times> 'v) list \<Rightarrow> ('k \<times> 'v) list" where
  \<comment> \<open>\<open>d[k] = f(d.get(k, default))\<close>\<close>
  "dict_update k f d [] = [(k, f d)]"
| "dict_update k f d ((k', v) # kvs) =
     (if k' = k then (k', f v) # kvs else (k', v) # dict_update k f d kvs)"

definition lookup_default :: "('k \<times> 'v) list \<Rightarrow> 'k \<Rightarrow> 'v \<Rightarrow> 'v" where
  \<comment> \<open>\<open>d.get(k, default)\<close>\<close>
  "lookup_default kvs k d = (case map_of kvs k of None \<Rightarrow> d | Some v \<Rightarrow> v)"

definition or_unknown :: "string \<Rightarrow> string" where
  \<comment> \<open>\<open>s or 'Unknown'\<close>\<close>
  "or_unknown s = (if s = [] then ''Unknown'' else s)"

definition round_half_even :: "rat \<Rightarrow> int" where
  "round_half_even y =
     (let f = \<lfloor>y\<rfloor>; d = y - of_int f
      in if d < 1 / 2 then f else if d > 1 / 2 then f + 1 else if even f then f else f + 1)"

definition round2 :: "rat \<Rightarrow> rat" where
  \<comment> \<open>\<open>round(x, 2)\<close>\<close>
  "round2 x = of_int (round_half_even (x * 100)) / 100"

definition amount :: "txn \<Rightarrow> rat" where
  \<comment> \<open>\<open>_amount\<close>: any exception of the two conversions gives \<open>0.0\<close>\<close>
  "amount t =
     (case py_int (dict_get t ''Quantity'' (VInt 0)) of
        Inl e \<Rightarrow> 0
      | Inr qty \<Rightarrow>
          (case py_float (dict_get t ''UnitPrice'' (VFloat 0)) of
             Inl e \<Rightarrow> 0
           | Inr price \<Rightarrow> of_int qty * price))"

definition calculate_total_revenue :: "txn list \<Rightarrow> rat" where
  "calculate_total_revenue transactions = foldl (\<lambda>total t. total + amount t) 0 transactions"

record counted =
  transaction_count :: nat

record region_stats = counted +
  total_sales :: rat
  percentage :: rat

definition region_step ::
  "(string \<times> rat) list \<times> (string \<times> nat) list \<Rightarrow> txn \<Rightarrow> (string \<times> rat) list \<times> (string \<times> nat) list" where
  "region_step st t =
     (let r = or_unknown (str_field t ''Region''); a = amount t
      in (dict_update r (\<lambda>v. v + a) 0 (fst st), dict_update r (\<lambda>c. c + 1) 0 (snd st)))"

definition region_wise_sales :: "txn list \<Rightarrow> (string \<times> region_stats) list" where
  \<comment> \<open>\<open>rows.sort(key=..., reverse=True)\<close> is stable: rows of equal sales keep their order\<close>
  "region_wise_sales transactions =
     (let (totals, counts) = foldl region_step ([], []) transactions;
          grand = sum_list (map snd totals);
          rows = map (\<lambda>(r, ts).
                   (r, \<lparr> transaction_count = lookup_default counts r 0,
                         total_sales = ts,
                         percentage = round2 (if grand > 0 then ts / grand * 100 else 0) \<rparr>)) totals
      in sort_key (\<lambda>kv. - total_sales (snd kv)) rows)"

definition quantity_or_zero :: "txn \<Rightarrow> int" where
  \<comment> \<open>\<open>try: q = int(t.get('Quantity',0)) except Exception: q = 0\<close>\<close>
  "quantity_or_zero t = (case py_int (dict_get t ''Quantity'' (VInt 0)) of Inl e \<Rightarrow> 0 | Inr q \<Rightarrow> q)"

definition product_step ::
  "(string \<times> int) list \<times> (string \<times> rat) list \<Rightarrow> txn \<Rightarrow> (string \<times> int) list \<times> (string \<times> rat) list" where
  \<comment> \<open>the loop body that \<open>top_selling_products\<close> and \<open>low_performing_products\<close> share\<close>
  "product_step st t =
     (let name = or_unknown (str_field t ''ProductName'');
          q = quantity_or_zero t;
          r = amount t
      in (dict_update name (\<lambda>v. v + q) 0 (fst st), dict_update name (\<lambda>v. v + r) 0 (snd st)))"

definition product_rows :: "txn list \<Rightarrow> (string \<times> int \<times> rat) list" where
  \<comment> \<open>\<open>[(name, qty[name], float(rev.get(name,0.0))) for name in qty.keys()]\<close>\<close>
  "product_rows transactions =
     (let (qty, rev) = foldl product_step ([], []) transactions
      in map (\<lambda>(name, q). (name, q, lookup_default rev name 0)) qty)"

definition top_selling_products :: "txn list \<Rightarrow> int \<Rightarrow> (string \<times> int \<times> rat) list" where
  \<comment> \<open>\<open>rows.sort(key=lambda x: (x[1], x[2]), reverse=True)\<close>; \<open>rows[:max(int(n),0)]\<close>\<close>
  "top_selling_products transactions n =
     take (nat (max n 0))
       (sort_key (\<lambda>(name, q, r). (- q, - r)) (product_rows transactions))"

definition low_performing_products :: "txn list \<Rightarrow> int \<Rightarrow> (string \<times> int \<times> rat) list" where
  \<comment> \<open>\<open>rows.sort(key=lambda x: (x[1], x[2], x[0]))\<close>\<close>
  "low_performing_products transactions threshold =
     sort_key (\<lambda>(name, q, r). (q, r, name))
       (filter (\<lambda>(name, q, r). q < threshold) (product_rows transactions))"

record customer_stats =
  total_spent :: rat
  purchase_count :: nat
  avg_order_value :: rat
  products_bought :: "string list"

definition customer_step ::
  "(string \<times> rat) list \<times> (string \<times> nat) list \<times> (string \<times> string set) list \<Rightarrow> txn
     \<Rightarrow> (string \<times> rat) list \<times> (string \<times> nat) list \<times> (string \<times> string set) list" where
  "customer_step st t =
     (let (spent, counts, prods) = st;
          cid = or_unknown (str_field t ''CustomerID'');
          pname = or_unknown (str_field t ''ProductName'')
      in (dict_update cid (\<lambda>v. v + amount t) 0 spent,
          dict_update cid (\<lambda>c. c + 1) 0 counts,
          dict_update cid (insert pname) {} prods))"

definition customer_analysis :: "txn list \<Rightarrow> (string \<times> customer_stats) list" where
  "customer_analysis transactions =
     (let (spent, counts, prods) = foldl customer_step ([], [], []) transactions;
          items = map (\<lambda>(cid, total).
                    (let cnt = lookup_default counts cid 0
                     in (cid, \<lparr> total_spent = total,
                                purchase_count = cnt,
                                avg_order_value = (if cnt > 0 then round2 (total / of_nat cnt) else 0),
                                products_bought = sorted_list_of_set (lookup_default prods cid {}) \<rparr>))) spent
      in sort_key (\<lambda>kv. - total_spent (snd kv)) items)"

record day_acc =
  acc_revenue :: rat
  acc_count :: nat
  custs :: "string set"

record day_stats = counted +
  revenue :: rat
  unique_customers :: nat

definition day_step :: "(string \<times> day_acc) list \<Rightarrow> txn \<Rightarrow> (string \<times> day_acc) list" where
  \<comment> \<open>a record with a blank date is skipped; a blank customer is not added to \<open>_custs\<close>\<close>
  "day_step daily t =
     (let date = str_field t ''Date''
      in if date = [] then daily
         else let amt = amount t; cust = str_field t ''CustomerID''
              in dict_update date
                   (\<lambda>a. \<lparr> acc_revenue = acc_revenue a + amt,
                          acc_count = acc_count a + 1,
                          custs = (if cust \<noteq> [] then insert cust (custs a) else custs a) \<rparr>)
                   \<lparr> acc_revenue = 0, acc_count = 0, custs = {} \<rparr> daily)"

definition daily_sales_trend :: "txn list \<Rightarrow> (string \<times> day_stats) list" where
  \<comment> \<open>\<open>for d in sorted(daily.keys())\<close>: the entries of \<open>daily\<close> in ascending order of their
      (distinct) keys\<close>
  "daily_sales_trend transactions =
     map (\<lambda>(d, a). (d, \<lparr> transaction_count = acc_count a,
                          revenue = round2 (acc_revenue a),
                          unique_customers = card (custs a) \<rparr>))
       (sort_key fst (foldl day_step [] transactions))"

fun max_by :: "('a \<Rightarrow> rat) \<Rightarrow> 'a \<Rightarrow> 'a list \<Rightarrow> 'a" where
  \<comment> \<open>\<open>max(xs, key=f)\<close> with the best element so far: a later element replaces it only when
      its key is strictly greater\<close>
  "max_by f best [] = best"
| "max_by f best (x # xs) = max_by f (if f x > f best then x else best) xs"

definition find_peak_sales_day :: "txn list \<Rightarrow> (string \<times> rat \<times> nat) option" where
  \<comment> \<open>\<open>max\<close> runs over the keys of \<open>trend\<close> in their order and compares the revenue of
      each key's entry, so it is taken over the entries\<close>
  "find_peak_sales_day transactions =
     (case daily_sales_trend transactions of
        [] \<Rightarrow> None
      | e # es \<Rightarrow>
          let (peak_date, rec) = max_by (\<lambda>kv. revenue (snd kv)) e es
          in Some (peak_date, revenue rec, transaction_count rec))"

section \<open>Catalog enrichment (utils/api\_handler.py)\<close>

type_synonym product_mapping = "int \<rightharpoonup> txn"

type_synonym files = "string \<rightharpoonup> string"

definition extract_numeric_product_id :: "pyval \<Rightarrow> int option" where
  \<comment> \<open>\<open>digits = re.sub(r'\D+', '', str(product_id)); int(digits) if digits else None\<close>\<close>
  "extract_numeric_product_id product_id =
     (let digits = filter is_digit (py_str product_id)
      in if digits = [] then None else Some (int (digits_val digits)))"

definition enrich_record :: "product_mapping \<Rightarrow> txn \<Rightarrow> txn" where
  \<comment> \<open>the body of the loop of \<open>enrich_sales_data\<close>\<close>
  "enrich_record product_mapping t =
     (let unmatched = t(''API_Category'' \<mapsto> VNone, ''API_Brand'' \<mapsto> VNone,
                        ''API_Rating'' \<mapsto> VNone, ''API_Match'' \<mapsto> VBool False)
      in case extract_numeric_product_id (dict_get t ''ProductID'' (VStr [])) of
           None \<Rightarrow> unmatched
         | Some num_id \<Rightarrow>
             (case product_mapping num_id of
                None \<Rightarrow> unmatched
              | Some info \<Rightarrow>
                  t(''API_Category'' \<mapsto> dict_get info ''category'' VNone,
                    ''API_Brand'' \<mapsto> dict_get info ''brand'' VNone,
                    ''API_Rating'' \<mapsto> dict_get info ''rating'' VNone,
                    ''API_Match'' \<mapsto> VBool True)))"

definition enriched_header :: "string list" where
  "enriched_header = [''TransactionID'', ''Date'', ''ProductID'', ''ProductName'', ''Quantity'',
     ''UnitPrice'', ''CustomerID'', ''Region'', ''API_Category'', ''API_Brand'', ''API_Rating'',
     ''API_Match'']"

definition line_end :: string where
  \<comment> \<open>what the source appends to the header and to every row: the empty string literal\<close>
  "line_end = []"

definition api_field :: "txn \<Rightarrow> string \<Rightarrow> string" where
  \<comment> \<open>\<open>'' if t.get(k) is None else str(t.get(k))\<close>\<close>
  "api_field t k = (case dict_get t k VNone of VNone \<Rightarrow> [] | v \<Rightarrow> py_str v)"

definition enriched_row :: "txn \<Rightarrow> pyerr + string list" where
  "enriched_row t =
     (let qv = dict_get t ''Quantity'' (VStr []); pv = dict_get t ''UnitPrice'' (VStr [])
      in case (if strip (py_str qv) = [] then Inr [] else map_sum id str_int (py_int qv)) of
           Inl e \<Rightarrow> Inl e
         | Inr q_str \<Rightarrow>
             (case (if strip (py_str pv) = [] then Inr [] else map_sum id float_repr (py_float pv)) of
                Inl e \<Rightarrow> Inl e
              | Inr p_str \<Rightarrow>
                  Inr [py_str (dict_get t ''TransactionID'' (VStr [])),
                       py_str (dict_get t ''Date'' (VStr [])),
                       py_str (dict_get t ''ProductID'' (VStr [])),
                       py_str (dict_get t ''ProductName'' (VStr [])),
                       q_str,
                       p_str,
                       py_str (dict_get t ''CustomerID'' (VStr [])),
                       py_str (dict_get t ''Region'' (VStr [])),
                       api_field t ''API_Category'',
                       api_field t ''API_Brand'',
                       api_field t ''API_Rating'',
                       py_str (VBool (py_bool (dict_get t ''API_Match'' (VBool False))))]))"

fun write_rows :: "txn list \<Rightarrow> string \<Rightarrow> (pyerr + unit) \<times> string" where
  \<comment> \<open>the loop of \<open>f.write\<close> calls with the text written so far; an exception ends it and
      leaves what has been written\<close>
  "write_rows [] written = (Inr (), written)"
| "write_rows (t # ts) written =
     (case enriched_row t of
        Inl e \<Rightarrow> (Inl e, written)
      | Inr row \<Rightarrow> write_rows ts (written @ join ''|'' row @ line_end))"

definition save_enriched_data :: "txn list \<Rightarrow> string \<Rightarrow> files \<Rightarrow> (pyerr + unit) \<times> files" where
  \<comment> \<open>the file is opened for writing, so it is replaced; directories and failures of the
      operating system are not modelled\<close>
  "save_enriched_data enriched_transactions filename fs =
     (let (res, written) = write_rows enriched_transactions (join ''|'' enriched_header @ line_end)
      in (res, fs(filename \<mapsto> written)))"

definition enrich_sales_data :: "txn list \<Rightarrow> product_mapping \<Rightarrow> files \<Rightarrow> txn list \<times> files" where
  \<comment> \<open>an exception of \<open>save_enriched_data\<close> is caught and only printed\<close>
  "enrich_sales_data transactions product_mapping fs =
     (let enriched = map (enrich_record product_mapping) transactions
      in (enriched, snd (save_enriched_data enriched ''data/enriched_sales_data.txt'' fs)))"

text \<open>Reading the side-file back: its lines, each split on the pipe character.\<close>

fun split_on :: "'a \<Rightarrow> 'a list \<Rightarrow> 'a list list" where
  \<comment> \<open>\<open>s.split(sep)\<close> for a separator of one character\<close>
  "split_on sep [] = [[]]"
| "split_on sep (c # cs) =
     (case split_on sep cs of
        [] \<Rightarrow> [[c]]
      | w # ws \<Rightarrow> if c = sep then [] # w # ws else (c # w) # ws)"

definition LF :: char where
  "LF = CHR 0x0A"

definition file_lines :: "string \<Rightarrow> string list" where
  \<comment> \<open>the lines of a text, without their line ends; a text that does not end in a line
      feed has a last, unterminated line\<close>
  "file_lines s = (let ls = split_on LF s in if last ls = [] then butlast ls else ls)"

definition read_back :: "string \<Rightarrow> string list list" where
  "read_back s = map (split_on (CHR ''|'')) (file_lines s)"

section \<open>Reading the input file (utils/file\_handler.py)\<close>

text \<open>
  The text of the input file is decoded before it is cleaned, and a decoded character may
  be any code point (the byte-order mark is U+FEFF), so a line of the file is a list of
  code points. The file store gives, for a path that exists, the list \<open>f.readlines()\<close>
  returns under the first encoding of \<open>ENCODING_CANDIDATES\<close> that decodes the file; the
  second candidate, latin-1, decodes every file.
\<close>

type_synonym ustring = "nat list"

definition ustr :: "string \<Rightarrow> ustring" where
  "ustr s = map of_char s"

definition u_is_space :: "nat \<Rightarrow> bool" where
  \<comment> \<open>\<open>str.isspace\<close> on a code point\<close>
  "u_is_space c = (c \<in> {9, 10, 11, 12, 13, 28, 29, 30, 31, 32, 133, 160, 5760, 8192, 8193, 8194,
     8195, 8196, 8197, 8198, 8199, 8200, 8201, 8202, 8232, 8233, 8239, 8287, 12288})"

definition u_strip :: "ustring \<Rightarrow> ustring" where
  "u_strip s = rev (dropWhile u_is_space (rev (dropWhile u_is_space s)))"

definition lstrip_chars :: "'a list \<Rightarrow> 'a list \<Rightarrow> 'a list" where
  \<comment> \<open>\<open>s.lstrip(chars)\<close>\<close>
  "lstrip_chars chars s = dropWhile (\<lambda>c. c \<in> set chars) s"

definition rstrip_chars :: "'a list \<Rightarrow> 'a list \<Rightarrow> 'a list" where
  \<comment> \<open>\<open>s.rstrip(chars)\<close>\<close>
  "rstrip_chars chars s = rev (dropWhile (\<lambda>c. c \<in> set chars) (rev s))"

definition u_lower :: "nat \<Rightarrow> nat" where
  \<comment> \<open>\<open>str.lower\<close> on the letters below 256; other code points are left as they are\<close>
  "u_lower c = (if (65 \<le> c \<and> c \<le> 90) \<or> (192 \<le> c \<and> c \<le> 222 \<and> c \<noteq> 215) then c + 32 else c)"

fun contains :: "'a list \<Rightarrow> 'a list \<Rightarrow> bool" where
  \<comment> \<open>\<open>p in s\<close>\<close>
  "contains p [] = (p = [])"
| "contains p (c # cs) = (take (length p) (c # cs) = p \<or> contains p cs)"

definition looks_like_header :: "ustring \<Rightarrow> bool" where
  "looks_like_header line =
     (let s = filter (\<lambda>c. c \<noteq> 32) (u_strip line);
          expected = ustr (join ''|'' EXPECTED_HEADERS)
      in if s = expected then True
         else let lowered = map u_lower line;
                  hits = length (filter (\<lambda>t. contains (map u_lower (ustr t)) lowered) EXPECTED_HEADERS)
              in hits \<ge> 4)"

definition BOM :: nat where
  "BOM = 0xFEFF"

definition clean_lines :: "ustring list \<Rightarrow> ustring list" where
  \<comment> \<open>from \<open>cleaned = []\<close> to the end of \<open>read_sales_data\<close>; the argument of \<open>rstrip\<close> is the
      empty string literal of the source\<close>
  "clean_lines raw_lines0 =
     (let raw_lines = (case raw_lines0 of [] \<Rightarrow> [] | l # ls \<Rightarrow> lstrip_chars [BOM] l # ls);
          after_blank = dropWhile (\<lambda>l. u_strip l = []) raw_lines;
          after_header = (case after_blank of
                            [] \<Rightarrow> []
                          | l # ls \<Rightarrow> if looks_like_header l then ls else l # ls)
      in filter (\<lambda>s. u_strip s \<noteq> []) (map (rstrip_chars []) after_header))"

definition read_sales_data :: "(string \<rightharpoonup> ustring list) \<Rightarrow> string \<Rightarrow> pyerr + ustring list" where
  "read_sales_data fs filename =
     (case fs filename of
        None \<Rightarrow> Inl FileNotFoundError
      | Some raw_lines \<Rightarrow> Inr (clean_lines raw_lines))"

section \<open>Report rendering (utils/reporting.py)\<close>

subsection \<open>Format specifications\<close>

definition ljust :: "nat \<Rightarrow> string \<Rightarrow> string" where
  \<comment> \<open>\<open>f"{s:<w}"\<close>\<close>
  "ljust w s = s @ replicate (w - length s) (CHR '' '')"

definition rjust :: "nat \<Rightarrow> string \<Rightarrow> string" where
  \<comment> \<open>\<open>f"{s:>w}"\<close>\<close>
  "rjust w s = replicate (w - length s) (CHR '' '') @ s"

fun group3 :: "string \<Rightarrow> string" where
  \<comment> \<open>a comma after every third digit of a reversed digit string\<close>
  "group3 (a # b # c # d # ds) = a # b # c # CHR '','' # group3 (d # ds)"
| "group3 ds = ds"

definition fmt_2f :: "bool \<Rightarrow> rat \<Rightarrow> string" where
  \<comment> \<open>\<open>f"{x:.2f}"\<close>, and \<open>f"{x:,.2f}"\<close> when \<open>grouped\<close>\<close>
  "fmt_2f grouped x =
     (let cents = nat (round_half_even (\<bar>x\<bar> * 100));
          ip = nat_digits (cents div 100)
      in (if x < 0 then ''-'' else [])
         @ (if grouped then rev (group3 (rev ip)) else ip)
         @ ''.'' @ [digit_char (cents mod 100 div 10), digit_char (cents mod 10)])"

definition fmt_money :: "rat \<Rightarrow> string \<Rightarrow> string" where
  \<comment> \<open>\<open>_fmt_money\<close>; formatting a float with \<open>,.2f\<close> raises nothing\<close>
  "fmt_money v currency_symbol = currency_symbol @ fmt_2f True v"

definition str_nat :: "nat \<Rightarrow> string" where
  "str_nat n = str_int (int n)"

fun enumerate_from :: "nat \<Rightarrow> 'a list \<Rightarrow> (nat \<times> 'a) list" where
  \<comment> \<open>\<open>enumerate(xs, start=i)\<close>\<close>
  "enumerate_from i [] = []"
| "enumerate_from i (x # xs) = (i, x) # enumerate_from (Suc i) xs"

subsection \<open>The absolute path of a file (os.path.abspath on POSIX)\<close>

fun normalise_comps :: "bool \<Rightarrow> string list \<Rightarrow> string list \<Rightarrow> string list" where
  \<comment> \<open>the loop of \<open>normpath\<close> over the components, with \<open>new_comps\<close>\<close>
  "normalise_comps initial_slashes new_comps [] = new_comps"
| "normalise_comps initial_slashes new_comps (part # comps) =
     (if part = [] \<or> part = ''.'' then normalise_comps initial_slashes new_comps comps
      else if part \<noteq> ''..'' \<or> (\<not> initial_slashes \<and> new_comps = [])
              \<or> (new_comps \<noteq> [] \<and> last new_comps = ''..'')
           then normalise_comps initial_slashes (new_comps @ [part]) comps
      else if new_comps \<noteq> [] then normalise_comps initial_slashes (butlast new_comps) comps
      else normalise_comps initial_slashes new_comps comps)"

definition normpath :: "string \<Rightarrow> string" where
  "normpath path =
     (if path = [] then ''.''
      else let initial_slashes = (if startswith path ''/'' then
                                    (if startswith path ''//'' \<and> \<not> startswith path ''///'' then 2 else 1)
                                  else (0::nat));
               comps = normalise_comps (initial_slashes > 0) [] (split_on (CHR ''/'') path);
               joined = replicate initial_slashes (CHR ''/'') @ join ''/'' comps
           in if joined = [] then ''.'' else joined)"

definition abspath :: "string \<Rightarrow> string \<Rightarrow> string" where
  \<comment> \<open>\<open>cwd\<close> is the working directory of the process, \<open>os.getcwd()\<close>\<close>
  "abspath cwd path =
     (if startswith path ''/'' then normpath path
      else if cwd = [] \<or> last cwd = CHR ''/'' then normpath (cwd @ path)
      else normpath (cwd @ ''/'' @ path))"

subsection \<open>The report\<close>

record report_env =
  cwd :: string
  generated_ts :: string

definition date_range :: "txn list \<Rightarrow> string \<times> string" where
  "date_range txns =
     (let dates = filter (\<lambda>d. d \<noteq> []) (map (\<lambda>t. str_field t ''Date'') txns)
      in case dates of
           [] \<Rightarrow> (''N/A'', ''N/A'')
         | d # ds \<Rightarrow> (fold min ds d, fold max ds d))"

definition strip_colons :: "string \<Rightarrow> string" where
  \<comment> \<open>\<open>label.strip(':')\<close>\<close>
  "strip_colons s = rstrip_chars '':'' (lstrip_chars '':'' s)"

definition not_enriched_labels :: "txn list \<Rightarrow> string list" where
  "not_enriched_labels etxns =
     filter (\<lambda>label. label \<noteq> [])
       (map (\<lambda>e. strip_colons (py_str (dict_get e ''ProductID'' (VStr [])) @ '':''
                                 @ py_str (dict_get e ''ProductName'' (VStr []))))
          (filter (\<lambda>e. \<not> py_bool (dict_get e ''API_Match'' (VBool False))) etxns))"

definition report_lines :: "string \<Rightarrow> txn list \<Rightarrow> txn list \<Rightarrow> string \<Rightarrow> int \<Rightarrow> string list" where
  "report_lines ts txns etxns currency_symbol low_threshold =
     (let total_revenue = calculate_total_revenue txns;
          total_transactions = length txns;
          avg_order_value = (if total_transactions \<noteq> 0
                             then total_revenue / of_nat total_transactions else 0);
          (date_min, date_max) = date_range txns;
          region_stats = region_wise_sales txns;
          top5_products = top_selling_products txns 5;
          top5_customers = take 5 (customer_analysis txns);
          trend = daily_sales_trend txns;
          peak = find_peak_sales_day txns;
          low_products = low_performing_products txns low_threshold;
          avg_per_region = map (\<lambda>(r, st).
              (r, if transaction_count st \<noteq> 0
                  then total_sales st / of_nat (transaction_count st) else 0)) region_stats;
          api_total = length etxns;
          api_success = length (filter (\<lambda>e. py_bool (dict_get e ''API_Match'' (VBool False))) etxns);
          not_enriched = not_enriched_labels etxns;
          api_rate = (if api_total \<noteq> 0 then of_nat api_success / of_nat api_total * 100 else 0);
          sep = replicate 44 (CHR ''='');
          dashes = replicate 44 (CHR ''-'');
          money = (\<lambda>v. fmt_money v currency_symbol)
      in [sep,
          ''SALES ANALYTICS REPORT'',
          ''Generated: '' @ ts,
          ''Records Processed: '' @ str_nat (length txns),
          sep,
          ''OVERALL SUMMARY'',
          dashes,
          ''Total Revenue: '' @ money total_revenue,
          ''Total Transactions: '' @ str_nat total_transactions,
          ''Average Order Value: '' @ money avg_order_value,
          ''Date Range: '' @ date_min @ '' to '' @ date_max,
          ''REGION-WISE PERFORMANCE'',
          dashes,
          ljust 12 ''Region'' @ rjust 15 ''Sales'' @ ''  '' @ rjust 12 ''% of Total'' @ ''  ''
            @ rjust 13 ''Transactions'']
         @ map (\<lambda>(region, st).
              ljust 12 region @ rjust 15 (money (total_sales st)) @ ''  ''
                @ rjust 11 (fmt_2f False (percentage st)) @ ''%  ''
                @ rjust 13 (str_nat (transaction_count st))) region_stats
         @ [''TOP 5 PRODUCTS'',
            dashes,
            rjust 4 ''Rank'' @ ''  '' @ ljust 30 ''Product Name'' @ rjust 6 ''Qty'' @ ''  ''
              @ rjust 15 ''Revenue'']
         @ map (\<lambda>(idx, name, qty, rv).
              rjust 4 (str_nat idx) @ ''  '' @ ljust 30 name @ rjust 6 (str_int qty) @ ''  ''
                @ rjust 15 (money rv)) (enumerate_from 1 top5_products)
         @ [''TOP 5 CUSTOMERS'',
            dashes,
            rjust 4 ''Rank'' @ ''  '' @ ljust 12 ''Customer ID'' @ rjust 15 ''Total Spent'' @ ''  ''
              @ rjust 12 ''Order Count'']
         @ map (\<lambda>(idx, cid, st).
              rjust 4 (str_nat idx) @ ''  '' @ ljust 12 cid @ rjust 15 (money (total_spent st))
                @ ''  '' @ rjust 12 (str_nat (purchase_count st))) (enumerate_from 1 top5_customers)
         @ [''DAILY SALES TREND'',
            dashes,
            ljust 12 ''Date'' @ rjust 15 ''Revenue'' @ ''  '' @ rjust 7 ''Trans'' @ ''  ''
              @ rjust 14 ''Unique Cust.'']
         @ map (\<lambda>(d, rec).
              ljust 12 d @ rjust 15 (money (revenue rec)) @ ''  ''
                @ rjust 7 (str_nat (transaction_count rec)) @ ''  ''
                @ rjust 14 (str_nat (unique_customers rec))) trend
         @ [''PRODUCT PERFORMANCE ANALYSIS'',
            dashes,
            (case peak of
               Some (d, rv, cnt) \<Rightarrow>
                 ''Best Selling Day: '' @ d @ ''  (Revenue: '' @ money rv @ '', Transactions: ''
                   @ str_nat cnt @ '')''
             | None \<Rightarrow> ''Best Selling Day: N/A'')]
         @ (if low_products \<noteq> []
            then [''Low Performing Products (< threshold)'',
                  ljust 30 ''Product'' @ rjust 6 ''Qty'' @ ''  '' @ rjust 15 ''Revenue'']
                 @ map (\<lambda>(name, qty, rv).
                      ljust 30 name @ rjust 6 (str_int qty) @ ''  '' @ rjust 15 (money rv)) low_products
            else [''Low Performing Products: None''])
         @ [''Average Transaction Value per Region'',
            ljust 12 ''Region'' @ rjust 15 ''Avg Value'']
         @ map (\<lambda>(r, avg). ljust 12 r @ rjust 15 (money avg)) avg_per_region
         @ [''API ENRICHMENT SUMMARY'',
            dashes,
            ''Total products enriched: '' @ str_nat api_success @ '' of '' @ str_nat api_total,
            ''Success rate: '' @ fmt_2f False api_rate @ ''%'']
         @ (if not_enriched \<noteq> []
            then ''Products not enriched:''
                 # map (\<lambda>label. '' - '' @ label) (sort (remdups not_enriched))
            else [''All products enriched successfully (or enrichment not attempted).'']))"

definition render :: "string \<Rightarrow> txn list \<Rightarrow> txn list \<Rightarrow> string \<Rightarrow> int \<Rightarrow> string" where
  \<comment> \<open>\<open>report_text = "\n".join(lines) + "\n"\<close>\<close>
  "render ts txns etxns currency_symbol low_threshold =
     join [LF] (report_lines ts txns etxns currency_symbol low_threshold) @ [LF]"

definition generate_sales_report ::
  "report_env \<Rightarrow> txn list \<Rightarrow> txn list option \<Rightarrow> string \<Rightarrow> string \<Rightarrow> int \<Rightarrow> files \<Rightarrow> string \<times> files" where
  \<comment> \<open>the value returned and the file store after the call;
      \<open>enriched_transactions or []\<close> makes \<open>None\<close> the empty list\<close>
  "generate_sales_report env transactions enriched_transactions output_file currency_symbol
       low_threshold fs =
     (let txns = transactions;
          etxns = (case enriched_transactions of None \<Rightarrow> [] | Some es \<Rightarrow> es);
          report_text = render (generated_ts env) txns etxns currency_symbol low_threshold
      in (abspath (cwd env) output_file, fs(output_file \<mapsto> report_text)))"

section \<open>Auxiliary notions for the verification\<close>

text \<open>
  The loops of the aggregation functions update several dictionaries at once. Each of
  these dictionaries, taken alone, is a tally: the values of the records are added up
  under the key of each record.
\<close>

definition tally ::
  "('a \<Rightarrow> 'k) \<Rightarrow> ('a \<Rightarrow> 'v::comm_monoid_add) \<Rightarrow> ('k \<times> 'v) list \<Rightarrow> 'a list \<Rightarrow> ('k \<times> 'v) list" where
  "tally key val acc ts = foldl (\<lambda>a t. dict_update (key t) (\<lambda>v. v + val t) 0 a) acc ts"



subsection \<open>Product groups, as the specification words them\<close>

definition product_group :: "txn \<Rightarrow> string" where
  \<comment> \<open>the group of a record: its trimmed product name, \<open>Unknown\<close> when that is blank\<close>
  "product_group t =
     (let name = strip (py_str (dict_get t ''ProductName'' (VStr [])))
      in if name = [] then ''Unknown'' else name)"

definition group_quantity :: "txn list \<Rightarrow> string \<Rightarrow> int" where
  "group_quantity ts name = (\<Sum>t\<leftarrow>filter (\<lambda>t. product_group t = name) ts. quantity_or_zero t)"

definition group_revenue :: "txn list \<Rightarrow> string \<Rightarrow> rat" where
  "group_revenue ts name = (\<Sum>t\<leftarrow>filter (\<lambda>t. product_group t = name) ts. amount t)"

definition product_names :: "txn list \<Rightarrow> string list" where
  "product_names ts = map fst (tally product_group quantity_or_zero [] ts)"

definition ranks_above :: "string \<times> int \<times> rat \<Rightarrow> string \<times> int \<times> rat \<Rightarrow> bool" where
  \<comment> \<open>quantity descending, then revenue descending\<close>
  "ranks_above a b =
     (case (a, b) of ((n1, q1, r1), (n2, q2, r2)) \<Rightarrow> q1 > q2 \<or> (q1 = q2 \<and> r1 \<ge> r2))"

definition precedes :: "string \<times> int \<times> rat \<Rightarrow> string \<times> int \<times> rat \<Rightarrow> bool" where
  \<comment> \<open>quantity ascending, then revenue ascending, then name ascending\<close>
  "precedes a b =
     (case (a, b) of ((n1, q1, r1), (n2, q2, r2)) \<Rightarrow>
        q1 < q2 \<or> (q1 = q2 \<and> (r1 < r2 \<or> (r1 = r2 \<and> n1 \<le> n2))))"

subsection \<open>Days, as the specification words them\<close>

definition day_records :: "txn list \<Rightarrow> string \<Rightarrow> txn list" where
  "day_records ts d = filter (\<lambda>t. strip (py_str (dict_get t ''Date'' (VStr []))) = d) ts"

definition day_customers :: "txn list \<Rightarrow> string \<Rightarrow> string set" where
  "day_customers ts d =
     {c. c \<noteq> [] \<and> c \<in> (\<lambda>t. strip (py_str (dict_get t ''CustomerID'' (VStr [])))) ` set (day_records ts d)}"

definition day_update :: "txn \<Rightarrow> day_acc \<Rightarrow> day_acc" where
  \<comment> \<open>what \<open>day_step\<close> does to the entry of a record's day\<close>
  "day_update t =
     (\<lambda>a. \<lparr> acc_revenue = acc_revenue a + amount t,
            acc_count = acc_count a + 1,
            custs = (if str_field t ''CustomerID'' \<noteq> [] then insert (str_field t ''CustomerID'') (custs a)
                     else custs a) \<rparr>)"

definition empty_day :: day_acc where
  \<comment> \<open>the entry \<open>day_step\<close> creates for a new day\<close>
  "empty_day = \<lparr> acc_revenue = 0, acc_count = 0, custs = {} \<rparr>"

subsection \<open>Enrichment, as the specification words it\<close>

definition decimal_value :: "string \<Rightarrow> nat" where
  "decimal_value ds = (\<Sum>i<length ds. digit_val (ds ! i) * 10 ^ (length ds - Suc i))"

definition api_keys :: "string set" where
  "api_keys = {''API_Category'', ''API_Brand'', ''API_Rating'', ''API_Match''}"

subsection \<open>Sample inputs\<close>

definition txn_widget :: txn where
  \<comment> \<open>the input line \<open>T1|2024-01-01|P100|Widget|2|10.00|C1|North\<close>, parsed\<close>
  "txn_widget = map_of
     [(''TransactionID'', VStr ''T1''), (''Date'', VStr ''2024-01-01''),
      (''ProductID'', VStr ''P100''), (''ProductName'', VStr ''Widget''),
      (''Quantity'', VInt 2), (''UnitPrice'', VFloat 10),
      (''CustomerID'', VStr ''C1''), (''Region'', VStr ''North'')]"

definition txn_gadget :: txn where
  "txn_gadget = map_of
     [(''TransactionID'', VStr ''T2''), (''Date'', VStr ''2024-01-02''),
      (''ProductID'', VStr ''P999''), (''ProductName'', VStr ''Gadget''),
      (''Quantity'', VInt 3), (''UnitPrice'', VFloat (25 / 2)),
      (''CustomerID'', VStr ''C2''), (''Region'', VStr ''South'')]"


definition sample_sales :: "txn list" where
  "sample_sales = [txn_widget, txn_gadget, txn_widget]"

definition sale :: "string \<Rightarrow> int \<Rightarrow> rat \<Rightarrow> string \<Rightarrow> txn" where
  "sale d q p c = map_of
     [(''Date'', VStr d), (''Quantity'', VInt q), (''UnitPrice'', VFloat p), (''CustomerID'', VStr c)]"

definition peak_sample :: "txn list" where
  "peak_sample = [sale ''2024-01-02'' 5 10 ''C1'', sale ''2024-01-01'' 4 10 ''C1'',
                  sale ''2024-01-02'' 3 10 ''C2'']"

definition anonymous_sale :: txn where
  "anonymous_sale = sale ''2024-01-02'' 1 5 ''  ''"

definition tie_sample :: "txn list" where
  "tie_sample = [sale ''2024-01-03'' 4 10 ''C1'', sale ''2024-01-01'' 4 10 ''C2'']"

definition sample_catalog :: product_mapping where
  "sample_catalog = [100 \<mapsto> map_of
     [(''title'', VStr ''Block set''), (''category'', VStr ''Toys''), (''brand'', VStr ''Acme''),
      (''rating'', VFloat (9 / 2))]]"

definition txn_spread :: txn where
  "txn_spread = txn_widget(''ProductID'' \<mapsto> VStr ''P1-00'')"

definition txn_no_digits :: txn where
  "txn_no_digits = txn_widget(''ProductID'' \<mapsto> VStr ''PX'')"

definition header_line :: ustring where
  "header_line = ustr ''TransactionID|Date|ProductID|ProductName|Quantity|UnitPrice|CustomerID|Region'' @ [10]"

definition one_line_file :: string where
  "one_line_file = ''TransactionID|Date|ProductID|ProductName|Quantity|UnitPrice|CustomerID|Region|API_Category|API_Brand|API_Rating|API_MatchT1|2024-01-01|P100|Widget|2|10.0|C1|North|Toys|Acme|4.5|True''"

definition sample_env :: report_env where
  "sample_env = \<lparr> cwd = ''/home/user'', generated_ts = ''2024-01-01 00:00:00'' \<rparr>"

definition empty_report :: "string list" where
  "empty_report =
     [''============================================'',
      ''SALES ANALYTICS REPORT'',
      ''Generated: 2024-01-01 00:00:00'',
      ''Records Processed: 0'',
      ''============================================'',
      ''OVERALL SUMMARY'',
      ''--------------------------------------------'',
      ''Total Revenue: $0.00'',
      ''Total Transactions: 0'',
      ''Average Order Value: $0.00'',
      ''Date Range: N/A to N/A'',
      ''REGION-WISE PERFORMANCE'',
      ''--------------------------------------------'',
      ''Region                Sales    % of Total   Transactions'',
      ''TOP 5 PRODUCTS'',
      ''--------------------------------------------'',
      ''Rank  Product Name                     Qty          Revenue'',
      ''TOP 5 CUSTOMERS'',
      ''--------------------------------------------'',
      ''Rank  Customer ID     Total Spent   Order Count'',
      ''DAILY SALES TREND'',
      ''--------------------------------------------'',
      ''Date                Revenue    Trans    Unique Cust.'',
      ''PRODUCT PERFORMANCE ANALYSIS'',
      ''--------------------------------------------'',
      ''Best Selling Day: N/A'',
      ''Low Performing Products: None'',
      ''Average Transaction Value per Region'',
      ''Region            Avg Value'',
      ''API ENRICHMENT SUMMARY'',
      ''--------------------------------------------'',
      ''Total products enriched: 0 of 0'',
      ''Success rate: 0.00%'',
      ''All products enriched successfully (or enrichment not attempted).'']"

definition enriched_widget :: txn where
  "enriched_widget = enrich_record sample_catalog txn_widget"

definition sample_line :: ustring where
  "sample_line = ustr ''T1|2024-01-01|P100|Widget|2|10.00|C1|North'' @ [10]"

section \<open>Verification\<close>

subsection \<open>Dictionaries and tallies\<close>

lemma dict_update_keys:
  "map fst (dict_update k f d kvs) = (if k \<in> fst ` set kvs then map fst kvs else map fst kvs @ [k])"
  by (induction kvs) (force simp: image_iff)+

lemma dict_update_lookup:
  "lookup_default (dict_update k f d kvs) k' d' =
     (if k' = k then f (lookup_default kvs k d) else lookup_default kvs k' d')"
  by (induction kvs) (auto simp: lookup_default_def)

lemma dict_update_distinct:
  "distinct (map fst kvs) \<Longrightarrow> distinct (map fst (dict_update k f d kvs))"
  by (simp add: dict_update_keys)


lemma tally_simps [simp]:
  "tally key val acc [] = acc"
  "tally key val acc (t # ts) = tally key val (dict_update (key t) (\<lambda>v. v + val t) 0 acc) ts"
  by (simp_all add: tally_def)

lemma tally_keys: "set (map fst (tally key val acc ts)) = fst ` set acc \<union> key ` set ts"
proof (induction ts arbitrary: acc)
  case Nil
  show ?case by simp
next
  case (Cons t ts)
  have "set (map fst (dict_update (key t) (\<lambda>v. v + val t) 0 acc)) = insert (key t) (fst ` set acc)"
    by (auto simp: dict_update_keys)
  then show ?case using Cons.IH[of "dict_update (key t) (\<lambda>v. v + val t) 0 acc"] by auto
qed

lemma tally_distinct: "distinct (map fst acc) \<Longrightarrow> distinct (map fst (tally key val acc ts))"
  by (induction ts arbitrary: acc) (simp_all add: dict_update_distinct)

lemma tally_lookup:
  "lookup_default (tally key val acc ts) k 0 =
     lookup_default acc k 0 + sum_list (map val (filter (\<lambda>t. key t = k) ts))"
proof (induction ts arbitrary: acc)
  case Nil
  show ?case by simp
next
  case (Cons t ts)
  show ?case
    by (simp add: Cons.IH dict_update_lookup add_ac)
qed




subsection \<open>Validation: each rejected record is counted once\<close>

















subsection \<open>Total revenue and the regional split\<close>




lemma region_fold_snd:
  "snd (foldl region_step st ts) = tally (\<lambda>t. or_unknown (str_field t ''Region'')) (\<lambda>t. 1) (snd st) ts"
  by (induction ts arbitrary: st) (simp_all add: region_step_def Let_def)






subsection \<open>Product groups\<close>


lemma product_group_eq: "or_unknown (str_field t ''ProductName'') = product_group t"
  by (simp add: or_unknown_def str_field_def product_group_def Let_def)

lemma lookup_default_Nil [simp]: "lookup_default [] k d = d"
  by (simp add: lookup_default_def)

lemma lookup_default_distinct:
  "distinct (map fst kvs) \<Longrightarrow> (k, v) \<in> set kvs \<Longrightarrow> lookup_default kvs k d = v"
  by (simp add: lookup_default_def)

lemma product_fold_fst:
  "fst (foldl product_step st ts) = tally product_group quantity_or_zero (fst st) ts"
  by (induction ts arbitrary: st) (simp_all add: product_step_def Let_def product_group_eq)

lemma product_fold_snd:
  "snd (foldl product_step st ts) = tally product_group amount (snd st) ts"
  by (induction ts arbitrary: st) (simp_all add: product_step_def Let_def product_group_eq)

lemma product_names_distinct: "distinct (product_names ts)"
  unfolding product_names_def by (rule tally_distinct) simp

lemma product_names_set: "set (product_names ts) = product_group ` set ts"
  unfolding product_names_def using tally_keys[of product_group quantity_or_zero "[]" ts] by simp

lemma product_rows_eq:
  "product_rows ts =
     map (\<lambda>name. (name, group_quantity ts name, group_revenue ts name)) (product_names ts)"
proof -
  let ?qty = "tally product_group quantity_or_zero [] ts"
  let ?rev = "tally product_group amount [] ts"
  have fold: "foldl product_step ([], []) ts = (?qty, ?rev)"
    using product_fold_fst[of "([], [])" ts] product_fold_snd[of "([], [])" ts]
    by (simp add: prod_eq_iff)
  have dist: "distinct (map fst ?qty)" by (rule tally_distinct) simp
  have q: "q = group_quantity ts name" if "(name, q) \<in> set ?qty" for name q
  proof -
    have "lookup_default ?qty name 0 = q" using dist that by (rule lookup_default_distinct)
    then show ?thesis
      by (simp add: tally_lookup group_quantity_def)
  qed
  have r: "lookup_default ?rev name 0 = group_revenue ts name" for name
    by (simp add: tally_lookup group_revenue_def)
  have "map (\<lambda>(name, q). (name, q, lookup_default ?rev name 0)) ?qty
      = map (\<lambda>kv. (fst kv, group_quantity ts (fst kv), group_revenue ts (fst kv))) ?qty"
    by (rule map_cong) (auto simp: r dest: q)
  then show ?thesis
    by (simp add: product_rows_def fold product_names_def comp_def)
qed

lemma product_rows_distinct: "distinct (map fst (product_rows ts))"
  by (simp add: product_rows_eq comp_def product_names_distinct)

lemma product_rows_set:
  "set (product_rows ts) =
     (\<lambda>name. (name, group_quantity ts name, group_revenue ts name)) ` (product_group ` set ts)"
  by (simp add: product_rows_eq product_names_set)

lemma product_rows_length: "length (product_rows ts) = card (product_group ` set ts)"
  using distinct_card[OF product_names_distinct, of ts]
  by (simp add: product_rows_eq product_names_set)

lemma sorted_ranking:
  "sorted_wrt ranks_above (sort_key (\<lambda>(name, q, r). (- q, - r)) rows)"
proof -
  have "sorted (map (\<lambda>(name, q, r). (- q, - r)) (sort_key (\<lambda>(name, q, r). (- q, - r)) rows))"
    by (rule sorted_sort_key)
  then have "sorted_wrt (\<lambda>a b. (case a of (name, q, r) \<Rightarrow> (- q, - r)) \<le> (case b of (name, q, r) \<Rightarrow> (- q, - r)))
       (sort_key (\<lambda>(name, q, r). (- q, - r)) rows)"
    by (simp add: sorted_map)
  then show ?thesis
    by (rule sorted_wrt_mono_rel[rotated]) (auto simp: ranks_above_def)
qed

subsection \<open>The samples, evaluated\<close>

lemmas str_eval = str_field_def dict_get_def py_str_def strip_def lstrip_def rstrip_def is_space_def

lemma widget_fields:
  "product_group txn_widget = ''Widget''" "quantity_or_zero txn_widget = 2" "amount txn_widget = 20"
  by (simp_all add: product_group_def txn_widget_def str_eval quantity_or_zero_def amount_def
      py_int_def py_float_def)

lemma gadget_fields:
  "product_group txn_gadget = ''Gadget''" "quantity_or_zero txn_gadget = 3" "amount txn_gadget = 75 / 2"
  by (simp_all add: product_group_def txn_gadget_def str_eval quantity_or_zero_def amount_def
      py_int_def py_float_def)

lemma sample_rows: "product_rows sample_sales = [(''Widget'', 4, 40), (''Gadget'', 3, 75 / 2)]"
  by (simp add: product_rows_eq product_names_def sample_sales_def widget_fields gadget_fields
      group_quantity_def group_revenue_def)

lemma sample_top1: "top_selling_products sample_sales 1 = [(''Widget'', 4, 40)]"
  by (simp add: top_selling_products_def sample_rows)

lemma sample_top0: "top_selling_products sample_sales 0 = []"
  by (simp add: top_selling_products_def)

lemma sample_low4: "low_performing_products sample_sales 4 = [(''Gadget'', 3, 75 / 2)]"
  by (simp add: low_performing_products_def sample_rows)

lemma sample_low10:
  "low_performing_products sample_sales 10 = [(''Gadget'', 3, 75 / 2), (''Widget'', 4, 40)]"
  by (simp add: low_performing_products_def sample_rows)

lemma sample_groups:
  "product_group ` set sample_sales = {''Widget'', ''Gadget''}"
  "group_quantity sample_sales ''Gadget'' = 3" "group_revenue sample_sales ''Gadget'' = 75 / 2"
  by (auto simp add: sample_sales_def widget_fields gadget_fields group_quantity_def group_revenue_def)

subsection \<open>Top selling products\<close>

text \<open>
  Claim C5. \<open>top_selling_products\<close> has one row for each product group (the trimmed
  product name, \<open>Unknown\<close> when blank), with the group's summed quantity and revenue. It
  returns \<open>min n\<close> (number of groups) rows, none when \<open>n \<le> 0\<close>, sorted by quantity
  descending and then revenue descending, and every group that is left out ranks no higher
  than any row that is returned.
\<close>

theorem top_selling_products_ranking:
  "length (top_selling_products ts n) = min (nat n) (card (product_group ` set ts))
   \<and> (n \<le> 0 \<longrightarrow> top_selling_products ts n = [])
   \<and> distinct (map fst (top_selling_products ts n))
   \<and> (\<forall>(name, q, r) \<in> set (top_selling_products ts n).
         name \<in> product_group ` set ts \<and> q = group_quantity ts name \<and> r = group_revenue ts name)
   \<and> sorted_wrt ranks_above (top_selling_products ts n)
   \<and> (\<forall>name \<in> product_group ` set ts. name \<notin> fst ` set (top_selling_products ts n) \<longrightarrow>
         (\<forall>row \<in> set (top_selling_products ts n).
            ranks_above row (name, group_quantity ts name, group_revenue ts name)))"
proof -
  let ?all = "sort_key (\<lambda>(name, q, r). (- q, - r)) (product_rows ts)"
  let ?k = "nat (max n 0)"
  have top: "top_selling_products ts n = take ?k ?all"
    by (simp add: top_selling_products_def)
  have len: "length (take ?k ?all) = min (nat n) (card (product_group ` set ts))"
    by (simp add: product_rows_length min.commute max_def)
  have empty: "n \<le> 0 \<longrightarrow> take ?k ?all = []" by simp
  have "distinct (map fst ?all)"
    using product_rows_distinct[of ts] by (metis distinct_map distinct_sort set_sort)
  then have dist: "distinct (map fst (take ?k ?all))"
    by (simp add: take_map[symmetric] distinct_take)
  have mem: "\<forall>(name, q, r) \<in> set (take ?k ?all).
      name \<in> product_group ` set ts \<and> q = group_quantity ts name \<and> r = group_revenue ts name"
  proof -
    have "set (take ?k ?all) \<subseteq> set (product_rows ts)"
      using set_take_subset[of ?k ?all] by simp
    then show ?thesis by (auto simp: product_rows_set)
  qed
  have srt_all: "sorted_wrt ranks_above (take ?k ?all @ drop ?k ?all)"
    using sorted_ranking[of "product_rows ts"] by simp
  then have srt: "sorted_wrt ranks_above (take ?k ?all)"
    unfolding sorted_wrt_append by blast
  have rest: "\<forall>name \<in> product_group ` set ts. name \<notin> fst ` set (take ?k ?all) \<longrightarrow>
         (\<forall>row \<in> set (take ?k ?all).
            ranks_above row (name, group_quantity ts name, group_revenue ts name))"
  proof (intro ballI impI)
    fix name row
    assume name: "name \<in> product_group ` set ts" and out: "name \<notin> fst ` set (take ?k ?all)"
      and row: "row \<in> set (take ?k ?all)"
    let ?e = "(name, group_quantity ts name, group_revenue ts name)"
    have "?e \<in> set (product_rows ts)" using name by (auto simp: product_rows_set)
    moreover have "set ?all = set (take ?k ?all) \<union> set (drop ?k ?all)"
      by (metis append_take_drop_id set_append)
    moreover have "?e \<notin> set (take ?k ?all)" using out by force
    ultimately have "?e \<in> set (drop ?k ?all)" by simp
    with srt_all row show "ranks_above row ?e"
      unfolding sorted_wrt_append by blast
  qed
  show ?thesis
    unfolding top using len empty dist mem srt rest by blast
qed

theorem top_selling_products_ranking_witness:
  "top_selling_products sample_sales 1 = [(''Widget'', 4, 40)]
   \<and> length (top_selling_products sample_sales 1) = min (nat 1) (card (product_group ` set sample_sales))
   \<and> ''Gadget'' \<in> product_group ` set sample_sales
   \<and> ''Gadget'' \<notin> fst ` set (top_selling_products sample_sales 1)
   \<and> ranks_above (''Widget'', 4, 40) (''Gadget'', 3, 75 / 2)
   \<and> (0::int) \<le> 0 \<and> top_selling_products sample_sales 0 = []"
  using top_selling_products_ranking [of sample_sales 1] top_selling_products_ranking [of sample_sales 0]
  by (simp add: sample_top1 sample_groups)

subsection \<open>Low performing products\<close>

lemma sorted_low:
  "sorted_wrt precedes (sort_key (\<lambda>(name, q, r). (q, r, name)) rows)"
proof -
  have "sorted (map (\<lambda>(name, q, r). (q, r, name)) (sort_key (\<lambda>(name, q, r). (q, r, name)) rows))"
    by (rule sorted_sort_key)
  then have "sorted_wrt (\<lambda>a b. (case a of (name, q, r) \<Rightarrow> (q, r, name)) \<le> (case b of (name, q, r) \<Rightarrow> (q, r, name)))
       (sort_key (\<lambda>(name, q, r). (q, r, name)) rows)"
    by (simp add: sorted_map)
  then show ?thesis
    by (rule sorted_wrt_mono_rel[rotated]) (auto simp: precedes_def)
qed

lemma low_performing_products_set:
  "set (low_performing_products ts thr) =
     {(name, group_quantity ts name, group_revenue ts name) | name.
        name \<in> product_group ` set ts \<and> group_quantity ts name < thr}"
proof -
  have "set (low_performing_products ts thr) = {row \<in> set (product_rows ts). fst (snd row) < thr}"
    by (auto simp: low_performing_products_def)
  also have "\<dots> = {(name, group_quantity ts name, group_revenue ts name) | name.
        name \<in> product_group ` set ts \<and> group_quantity ts name < thr}"
    unfolding product_rows_set by force
  finally show ?thesis .
qed

lemma low_distinct: "distinct (map fst (low_performing_products ts thr))"
proof -
  have "distinct (map fst (filter (\<lambda>(name, q, r). q < thr) (product_rows ts)))"
    using product_rows_distinct[of ts] by (rule distinct_map_filter)
  then have "distinct (filter (\<lambda>(name, q, r). q < thr) (product_rows ts))
      \<and> inj_on fst (set (filter (\<lambda>(name, q, r). q < thr) (product_rows ts)))"
    by (simp only: distinct_map)
  then have "distinct (low_performing_products ts thr)
      \<and> inj_on fst (set (low_performing_products ts thr))"
    by (simp only: low_performing_products_def distinct_sort set_sort)
  then show ?thesis by (simp only: distinct_map)
qed

lemma low_below: "(name, q, r) \<in> set (low_performing_products ts thr) \<Longrightarrow> q < thr"
  unfolding low_performing_products_set by blast

lemma low_mono:
  assumes "thr \<le> thr'"
  shows "set (low_performing_products ts thr) \<subseteq> set (low_performing_products ts thr')"
  unfolding low_performing_products_set using assms by force

text \<open>
  Claim C6. The rows of \<open>low_performing_products\<close> are exactly the product groups whose
  summed quantity is strictly below the threshold, each once, sorted by quantity, then
  revenue, then name, all ascending. No row has a quantity at or above the threshold, and
  the set of rows can only grow when the threshold is raised.
\<close>

theorem low_performing_products_below_threshold:
  "set (low_performing_products ts thr) =
     {(name, group_quantity ts name, group_revenue ts name) | name.
        name \<in> product_group ` set ts \<and> group_quantity ts name < thr}
   \<and> distinct (map fst (low_performing_products ts thr))
   \<and> sorted_wrt precedes (low_performing_products ts thr)
   \<and> (\<forall>(name, q, r) \<in> set (low_performing_products ts thr). \<not> thr \<le> q)
   \<and> (thr \<le> thr' \<longrightarrow> set (low_performing_products ts thr) \<subseteq> set (low_performing_products ts thr'))"
proof (intro conjI)
  show "set (low_performing_products ts thr) =
     {(name, group_quantity ts name, group_revenue ts name) | name.
        name \<in> product_group ` set ts \<and> group_quantity ts name < thr}"
    by (rule low_performing_products_set)
  show "distinct (map fst (low_performing_products ts thr))" by (rule low_distinct)
  show "sorted_wrt precedes (low_performing_products ts thr)"
    unfolding low_performing_products_def by (rule sorted_low)
  show "\<forall>(name, q, r) \<in> set (low_performing_products ts thr). \<not> thr \<le> q"
    using low_below[of _ _ _ ts thr] by fastforce
  show "thr \<le> thr' \<longrightarrow> set (low_performing_products ts thr) \<subseteq> set (low_performing_products ts thr')"
    using low_mono[of thr thr' ts] by blast
qed

theorem low_performing_products_below_threshold_witness:
  "low_performing_products sample_sales 4 = [(''Gadget'', 3, 75 / 2)]
   \<and> low_performing_products sample_sales 10 = [(''Gadget'', 3, 75 / 2), (''Widget'', 4, 40)]
   \<and> (4::int) \<le> 10
   \<and> set (low_performing_products sample_sales 4) \<subseteq> set (low_performing_products sample_sales 10)
   \<and> precedes (''Gadget'', 3, 75 / 2) (''Widget'', 4, 40)"
proof -
  have "sorted_wrt precedes (low_performing_products sample_sales 10)"
    using low_performing_products_below_threshold [of sample_sales 10 10] by (elim conjE)
  then have "precedes (''Gadget'', 3, 75 / 2) (''Widget'', 4, 40)"
    by (simp add: sample_low10)
  moreover have "set (low_performing_products sample_sales 4) \<subseteq> set (low_performing_products sample_sales 10)"
    using low_performing_products_below_threshold [of sample_sales 4 10] by (elim conjE) simp
  ultimately show ?thesis
    by (simp add: sample_low4 sample_low10)
qed

subsection \<open>The daily trend\<close>

lemma day_step_eq:
  "day_step daily t =
     (if str_field t ''Date'' = [] then daily
      else dict_update (str_field t ''Date'') (day_update t) empty_day daily)"
  by (simp add: day_step_def Let_def day_update_def empty_day_def)

lemma dict_update_key_set: "fst ` set (dict_update k f d kvs) = insert k (fst ` set kvs)"
proof -
  have "set (map fst (dict_update k f d kvs)) = insert k (set (map fst kvs))"
    unfolding dict_update_keys by (cases "k \<in> fst ` set kvs") auto
  then show ?thesis by simp
qed

lemma day_fold_keys:
  "set (map fst (foldl day_step acc ts)) =
     fst ` set acc \<union> {d. d \<noteq> [] \<and> d \<in> (\<lambda>t. str_field t ''Date'') ` set ts}"
proof (induction ts arbitrary: acc)
  case Nil
  show ?case by simp
next
  case (Cons t ts)
  have "set (map fst (day_step acc t)) =
      fst ` set acc \<union> (if str_field t ''Date'' = [] then {} else {str_field t ''Date''})"
    by (simp add: day_step_eq dict_update_key_set)
  then show ?case using Cons.IH[of "day_step acc t"] by auto
qed

lemma day_fold_distinct:
  "distinct (map fst acc) \<Longrightarrow> distinct (map fst (foldl day_step acc ts))"
  by (induction ts arbitrary: acc) (simp_all add: day_step_eq dict_update_distinct)

lemma day_fold_lookup:
  assumes "d \<noteq> []"
  shows "lookup_default (foldl day_step acc ts) d empty_day =
     foldl (\<lambda>a t. day_update t a) (lookup_default acc d empty_day)
       (filter (\<lambda>t. str_field t ''Date'' = d) ts)"
  using assms
proof (induction ts arbitrary: acc)
  case Nil
  show ?case by simp
next
  case (Cons t ts)
  have "lookup_default (day_step acc t) d empty_day =
      (if str_field t ''Date'' = d then day_update t (lookup_default acc d empty_day)
       else lookup_default acc d empty_day)"
    using Cons.prems by (auto simp: day_step_eq dict_update_lookup)
  then show ?case using Cons.IH[OF Cons.prems, of "day_step acc t"] by simp
qed

lemma day_updates_acc:
  "acc_revenue (foldl (\<lambda>a t. day_update t a) a0 xs) = acc_revenue a0 + sum_list (map amount xs)"
  "acc_count (foldl (\<lambda>a t. day_update t a) a0 xs) = acc_count a0 + length xs"
  "custs (foldl (\<lambda>a t. day_update t a) a0 xs) =
     custs a0 \<union> {c. c \<noteq> [] \<and> c \<in> (\<lambda>t. str_field t ''CustomerID'') ` set xs}"
  by (induction xs arbitrary: a0) (auto simp: day_update_def)

lemma daily_entry:
  assumes "(d, a) \<in> set (foldl day_step [] ts)"
  shows "d \<noteq> []"
    and "acc_revenue a = sum_list (map amount (day_records ts d))"
    and "acc_count a = length (day_records ts d)"
    and "custs a = day_customers ts d"
proof -
  have "d \<in> set (map fst (foldl day_step [] ts))" using assms by force
  then show d: "d \<noteq> []" unfolding day_fold_keys by simp
  have "distinct (map fst (foldl day_step [] ts))" by (rule day_fold_distinct) simp
  then have "lookup_default (foldl day_step [] ts) d empty_day = a"
    using assms by (rule lookup_default_distinct)
  then have a: "a = foldl (\<lambda>a t. day_update t a) empty_day (day_records ts d)"
    using day_fold_lookup[OF d, of "[]" ts] by (simp add: day_records_def str_field_def)
  show "acc_revenue a = sum_list (map amount (day_records ts d))"
    unfolding a day_updates_acc by (simp add: empty_day_def)
  show "acc_count a = length (day_records ts d)"
    unfolding a day_updates_acc by (simp add: empty_day_def)
  show "custs a = day_customers ts d"
    unfolding a day_updates_acc by (simp add: empty_day_def day_customers_def str_field_def)
qed

lemma trend_dates:
  "map fst (daily_sales_trend ts) = map fst (sort_key fst (foldl day_step [] ts))"
  by (simp add: daily_sales_trend_def comp_def case_prod_unfold)

lemma trend_sorted: "sorted (map fst (daily_sales_trend ts))"
  unfolding trend_dates by (rule sorted_sort_key)

lemma trend_distinct: "distinct (map fst (daily_sales_trend ts))"
proof -
  have "distinct (map fst (foldl day_step [] ts))" by (rule day_fold_distinct) simp
  then have "distinct (foldl day_step [] ts) \<and> inj_on fst (set (foldl day_step [] ts))"
    by (simp only: distinct_map)
  then have "distinct (sort_key fst (foldl day_step [] ts))
      \<and> inj_on fst (set (sort_key fst (foldl day_step [] ts)))"
    by (simp only: distinct_sort set_sort)
  then show ?thesis unfolding trend_dates by (simp only: distinct_map)
qed

lemma trend_date_set:
  "fst ` set (daily_sales_trend ts) =
     {d. d \<noteq> [] \<and> d \<in> (\<lambda>t. strip (py_str (dict_get t ''Date'' (VStr [])))) ` set ts}"
proof -
  have "fst ` set (daily_sales_trend ts) = set (map fst (daily_sales_trend ts))" by simp
  also have "\<dots> = set (map fst (foldl day_step [] ts))" unfolding trend_dates by simp
  also have "\<dots> = {d. d \<noteq> [] \<and> d \<in> (\<lambda>t. str_field t ''Date'') ` set ts}"
    unfolding day_fold_keys by simp
  finally show ?thesis by (simp add: str_field_def)
qed

lemma trend_entry:
  assumes "(d, st) \<in> set (daily_sales_trend ts)"
  shows "transaction_count st = length (day_records ts d)"
    and "revenue st = round2 (sum_list (map amount (day_records ts d)))"
    and "unique_customers st = card (day_customers ts d)"
proof -
  from assms obtain a where a: "(d, a) \<in> set (foldl day_step [] ts)"
    and st: "st = \<lparr> transaction_count = acc_count a, revenue = round2 (acc_revenue a),
                    unique_customers = card (custs a) \<rparr>"
    by (auto simp: daily_sales_trend_def)
  show "transaction_count st = length (day_records ts d)"
    by (simp add: st daily_entry(3)[OF a])
  show "revenue st = round2 (sum_list (map amount (day_records ts d)))"
    by (simp add: st daily_entry(2)[OF a])
  show "unique_customers st = card (day_customers ts d)"
    by (simp add: st daily_entry(4)[OF a])
qed

lemma max_by_split:
  "\<exists>pre post. best # xs = pre @ max_by f best xs # post
      \<and> (\<forall>x \<in> set pre. f x < f (max_by f best xs))
      \<and> (\<forall>x \<in> set post. f x \<le> f (max_by f best xs))"
proof (induction xs arbitrary: best)
  case Nil
  have "[best] = [] @ max_by f best [] # []" by simp
  then show ?case by fastforce
next
  case (Cons x xs)
  define b where "b = (if f x > f best then x else best)"
  define m where "m = max_by f b xs"
  have m: "max_by f best (x # xs) = m" by (simp add: m_def b_def)
  from Cons.IH[of b] obtain pre post where split: "b # xs = pre @ m # post"
    and pre: "\<forall>y \<in> set pre. f y < f m" and post: "\<forall>y \<in> set post. f y \<le> f m"
    unfolding m_def by blast
  have b_le: "f b \<le> f m"
  proof (cases pre)
    case Nil
    with split have "b = m" by simp
    then show ?thesis by simp
  next
    case (Cons p ps)
    with split have "p = b" by simp
    with pre Cons show ?thesis by simp
  qed
  show ?case
  proof (cases "f x > f best")
    case True
    then have bx: "b = x" by (simp add: b_def)
    have "best # x # xs = (best # pre) @ m # post" using split bx by simp
    moreover have "\<forall>y \<in> set (best # pre). f y < f m" using pre True b_le bx by auto
    ultimately show ?thesis unfolding m using post by blast
  next
    case False
    then have bb: "b = best" by (simp add: b_def)
    show ?thesis
    proof (cases pre)
      case Nil
      with split bb have mb: "m = best" and px: "post = xs" by simp_all
      have "best # x # xs = [] @ m # (x # xs)" using mb by simp
      moreover have "\<forall>y \<in> set (x # xs). f y \<le> f m"
        using post False mb px by auto
      moreover have "\<forall>y \<in> set []. f y < f m" by simp
      ultimately show ?thesis unfolding m by blast
    next
      case (Cons p ps)
      with split bb have p: "p = best" and xs: "xs = ps @ m # post" by simp_all
      have "best # x # xs = (best # x # ps) @ m # post" using xs by simp
      moreover have "\<forall>y \<in> set (best # x # ps). f y < f m"
        using pre Cons p False by auto
      ultimately show ?thesis unfolding m using post by blast
    qed
  qed
qed

lemma trend_empty_iff:
  "daily_sales_trend ts = [] \<longleftrightarrow> (\<forall>t \<in> set ts. strip (py_str (dict_get t ''Date'' (VStr []))) = [])"
proof -
  have "daily_sales_trend ts = [] \<longleftrightarrow> fst ` set (daily_sales_trend ts) = {}" by simp
  also have "\<dots> \<longleftrightarrow> (\<forall>t \<in> set ts. strip (py_str (dict_get t ''Date'' (VStr []))) = [])"
    unfolding trend_date_set by auto
  finally show ?thesis .
qed

lemma peak_is_first_maximum:
  assumes "find_peak_sales_day ts = Some (d, rv, cnt)"
  shows "\<exists>st pre post. daily_sales_trend ts = pre @ (d, st) # post
           \<and> revenue st = rv \<and> transaction_count st = cnt
           \<and> (\<forall>(d', st') \<in> set pre. revenue st' < rv)
           \<and> (\<forall>(d', st') \<in> set post. revenue st' \<le> rv)"
proof (cases "daily_sales_trend ts")
  case Nil
  with assms show ?thesis by (simp add: find_peak_sales_day_def)
next
  case (Cons e es)
  let ?m = "max_by (\<lambda>kv. revenue (snd kv)) e es"
  from assms Cons have m: "?m = (d, snd ?m)" "revenue (snd ?m) = rv" "transaction_count (snd ?m) = cnt"
    by (auto simp: find_peak_sales_day_def Let_def case_prod_unfold prod_eq_iff)
  from max_by_split[of e es "\<lambda>kv. revenue (snd kv)"] obtain pre post
    where "e # es = pre @ ?m # post"
      and "\<forall>x \<in> set pre. revenue (snd x) < revenue (snd ?m)"
      and "\<forall>x \<in> set post. revenue (snd x) \<le> revenue (snd ?m)"
    by blast
  then have "daily_sales_trend ts = pre @ (d, snd ?m) # post
      \<and> (\<forall>(d', st') \<in> set pre. revenue st' < rv)
      \<and> (\<forall>(d', st') \<in> set post. revenue st' \<le> rv)"
    using Cons m by (auto simp: case_prod_unfold)
  with m(2,3) show ?thesis by blast
qed

lemma sale_fields:
  "str_field (sale ''2024-01-02'' q p c) ''Date'' = ''2024-01-02''"
  "str_field (sale ''2024-01-01'' q p c) ''Date'' = ''2024-01-01''"
  "str_field (sale d q p ''C1'') ''CustomerID'' = ''C1''"
  "str_field (sale d q p ''C2'') ''CustomerID'' = ''C2''"
  "str_field (sale d q p ''  '') ''CustomerID'' = []"
  "amount (sale d q p c) = of_int q * p"
  by (simp_all add: sale_def str_eval amount_def py_int_def py_float_def)

lemma round2_int: "round2 (of_int n) = of_int n"
  by (simp add: round2_def round_half_even_def Let_def)

lemma peak_sample_trend:
  "daily_sales_trend peak_sample =
     [(''2024-01-01'', \<lparr> transaction_count = 1, revenue = 40, unique_customers = 1 \<rparr>),
      (''2024-01-02'', \<lparr> transaction_count = 2, revenue = 80, unique_customers = 2 \<rparr>)]"
  using round2_int[of 40] round2_int[of 80]
  by (simp add: daily_sales_trend_def peak_sample_def day_step_eq day_update_def empty_day_def
      sale_fields)

lemma peak_sample_peak: "find_peak_sales_day peak_sample = Some (''2024-01-02'', 80, 2)"
  by (simp add: find_peak_sales_day_def peak_sample_trend)

lemma anonymous_trend:
  "daily_sales_trend (peak_sample @ [anonymous_sale]) =
     [(''2024-01-01'', \<lparr> transaction_count = 1, revenue = 40, unique_customers = 1 \<rparr>),
      (''2024-01-02'', \<lparr> transaction_count = 3, revenue = 85, unique_customers = 2 \<rparr>)]"
  using round2_int[of 40] round2_int[of 85]
  by (simp add: daily_sales_trend_def peak_sample_def anonymous_sale_def day_step_eq day_update_def
      empty_day_def sale_fields)

lemma tie_sample_trend:
  "daily_sales_trend tie_sample =
     [(''2024-01-01'', \<lparr> transaction_count = 1, revenue = 40, unique_customers = 1 \<rparr>),
      (''2024-01-03'', \<lparr> transaction_count = 1, revenue = 40, unique_customers = 1 \<rparr>)]"
  using round2_int[of 40]
  by (simp add: daily_sales_trend_def tie_sample_def day_step_eq day_update_def empty_day_def
      sale_def str_eval amount_def py_int_def py_float_def)

lemma tie_sample_peak: "find_peak_sales_day tie_sample = Some (''2024-01-01'', 40, 1)"
  by (simp add: find_peak_sales_day_def tie_sample_trend)

lemma undated_sale: "strip (py_str (dict_get (sale [] 1 1 ''C1'') ''Date'' (VStr []))) = []"
  by (simp add: sale_def str_eval)

lemma anonymous_fields:
  "strip (py_str (dict_get anonymous_sale ''Date'' (VStr []))) = ''2024-01-02''"
  "strip (py_str (dict_get anonymous_sale ''CustomerID'' (VStr []))) = []"
  by (simp_all add: anonymous_sale_def sale_def str_eval)

text \<open>
  Claim C10. Every entry of \<open>daily_sales_trend\<close> counts all records of its day, rounds the
  sum of their amounts, and counts as unique customers the distinct non-blank customer
  identifiers of the day. The days are the non-blank dates of the input, each once. So a
  record with a non-blank date \<open>d\<close> and a blank customer identifier, put anywhere into the
  input, adds one to the transaction count of \<open>d\<close> and its amount to the revenue of \<open>d\<close>,
  and leaves the number of unique customers of \<open>d\<close> as it is without the record.
\<close>

theorem daily_sales_trend_unique_customers:
  "(\<forall>(d, st) \<in> set (daily_sales_trend ts).
       transaction_count st = length (day_records ts d)
     \<and> revenue st = round2 (\<Sum>u\<leftarrow>day_records ts d. amount u)
     \<and> unique_customers st = card (day_customers ts d))
   \<and> fst ` set (daily_sales_trend ts) =
       {d. d \<noteq> [] \<and> d \<in> (\<lambda>u. strip (py_str (dict_get u ''Date'' (VStr [])))) ` set ts}
   \<and> distinct (map fst (daily_sales_trend ts))
   \<and> (strip (py_str (dict_get t ''Date'' (VStr []))) = d \<and> d \<noteq> []
        \<and> strip (py_str (dict_get t ''CustomerID'' (VStr []))) = [] \<longrightarrow>
        (\<exists>st. (d, st) \<in> set (daily_sales_trend (xs @ t # ys))
           \<and> transaction_count st = length (day_records (xs @ ys) d) + 1
           \<and> revenue st = round2 ((\<Sum>u\<leftarrow>day_records (xs @ ys) d. amount u) + amount t)
           \<and> unique_customers st = card (day_customers (xs @ ys) d)))"
proof (intro conjI impI)
  show "\<forall>(d, st) \<in> set (daily_sales_trend ts).
       transaction_count st = length (day_records ts d)
     \<and> revenue st = round2 (\<Sum>u\<leftarrow>day_records ts d. amount u)
     \<and> unique_customers st = card (day_customers ts d)"
    using trend_entry[of _ _ ts] by blast
  show "fst ` set (daily_sales_trend ts) =
       {d. d \<noteq> [] \<and> d \<in> (\<lambda>u. strip (py_str (dict_get u ''Date'' (VStr [])))) ` set ts}"
    by (rule trend_date_set)
  show "distinct (map fst (daily_sales_trend ts))" by (rule trend_distinct)
next
  assume t: "strip (py_str (dict_get t ''Date'' (VStr []))) = d \<and> d \<noteq> []
        \<and> strip (py_str (dict_get t ''CustomerID'' (VStr []))) = []"
  let ?ts = "xs @ t # ys"
  have "d \<in> fst ` set (daily_sales_trend ?ts)"
    unfolding trend_date_set using t by auto
  then obtain st where st: "(d, st) \<in> set (daily_sales_trend ?ts)" by auto
  have recs: "day_records ?ts d = day_records xs d @ t # day_records ys d"
    "day_records (xs @ ys) d = day_records xs d @ day_records ys d"
    using t by (simp_all add: day_records_def)
  have custs: "day_customers ?ts d = day_customers (xs @ ys) d"
    unfolding day_customers_def recs using t by auto
  have "transaction_count st = length (day_records (xs @ ys) d) + 1"
    using trend_entry(1)[OF st] by (simp add: recs)
  moreover have "revenue st = round2 ((\<Sum>u\<leftarrow>day_records (xs @ ys) d. amount u) + amount t)"
    using trend_entry(2)[OF st] by (simp add: recs add_ac)
  moreover have "unique_customers st = card (day_customers (xs @ ys) d)"
    using trend_entry(3)[OF st] by (simp add: custs)
  ultimately show "\<exists>st. (d, st) \<in> set (daily_sales_trend (xs @ t # ys))
           \<and> transaction_count st = length (day_records (xs @ ys) d) + 1
           \<and> revenue st = round2 ((\<Sum>u\<leftarrow>day_records (xs @ ys) d. amount u) + amount t)
           \<and> unique_customers st = card (day_customers (xs @ ys) d)"
    using st by blast
qed

theorem daily_sales_trend_unique_customers_witness:
  "strip (py_str (dict_get anonymous_sale ''Date'' (VStr []))) = ''2024-01-02''
   \<and> strip (py_str (dict_get anonymous_sale ''CustomerID'' (VStr []))) = []
   \<and> daily_sales_trend peak_sample =
       [(''2024-01-01'', \<lparr> transaction_count = 1, revenue = 40, unique_customers = 1 \<rparr>),
        (''2024-01-02'', \<lparr> transaction_count = 2, revenue = 80, unique_customers = 2 \<rparr>)]
   \<and> daily_sales_trend (peak_sample @ [anonymous_sale]) =
       [(''2024-01-01'', \<lparr> transaction_count = 1, revenue = 40, unique_customers = 1 \<rparr>),
        (''2024-01-02'', \<lparr> transaction_count = 3, revenue = 85, unique_customers = 2 \<rparr>)]
   \<and> (\<exists>st. (''2024-01-02'', st) \<in> set (daily_sales_trend (peak_sample @ anonymous_sale # []))
          \<and> transaction_count st = length (day_records (peak_sample @ []) ''2024-01-02'') + 1
          \<and> unique_customers st = card (day_customers (peak_sample @ []) ''2024-01-02''))"
  using daily_sales_trend_unique_customers
      [of peak_sample anonymous_sale "''2024-01-02''" peak_sample "[]"]
  by (simp add: anonymous_fields peak_sample_trend anonymous_trend)

subsection \<open>The peak day\<close>

text \<open>
  Claim C7. \<open>find_peak_sales_day\<close> returns nothing exactly when no record has a non-blank
  date. Otherwise it returns a date of \<open>daily_sales_trend\<close> with the revenue and the
  transaction count of that entry; no entry has a larger revenue, and every entry of the
  same revenue has a date that is not earlier. The entries of \<open>daily_sales_trend\<close> are in
  ascending order of their distinct dates, so this is the first maximum in that order.
\<close>

theorem find_peak_sales_day_first_maximum:
  "(find_peak_sales_day ts = None
      \<longleftrightarrow> (\<forall>t \<in> set ts. strip (py_str (dict_get t ''Date'' (VStr []))) = []))
   \<and> sorted (map fst (daily_sales_trend ts))
   \<and> distinct (map fst (daily_sales_trend ts))
   \<and> (find_peak_sales_day ts = Some (d, rv, cnt) \<longrightarrow>
        (\<exists>st. (d, st) \<in> set (daily_sales_trend ts) \<and> revenue st = rv \<and> transaction_count st = cnt)
        \<and> (\<forall>(d', st') \<in> set (daily_sales_trend ts).
              revenue st' \<le> rv \<and> (revenue st' = rv \<longrightarrow> d \<le> d')))"
proof (intro conjI impI)
  show "find_peak_sales_day ts = None
      \<longleftrightarrow> (\<forall>t \<in> set ts. strip (py_str (dict_get t ''Date'' (VStr []))) = [])"
    unfolding trend_empty_iff[symmetric]
    by (simp add: find_peak_sales_day_def Let_def case_prod_unfold split: list.splits)
  show "sorted (map fst (daily_sales_trend ts))" by (rule trend_sorted)
  show "distinct (map fst (daily_sales_trend ts))" by (rule trend_distinct)
next
  assume peak: "find_peak_sales_day ts = Some (d, rv, cnt)"
  from peak_is_first_maximum[OF peak] obtain st pre post
    where split: "daily_sales_trend ts = pre @ (d, st) # post"
      and st: "revenue st = rv" "transaction_count st = cnt"
      and pre: "\<forall>(d', st') \<in> set pre. revenue st' < rv"
      and post: "\<forall>(d', st') \<in> set post. revenue st' \<le> rv"
    by blast
  show "\<exists>st. (d, st) \<in> set (daily_sales_trend ts) \<and> revenue st = rv \<and> transaction_count st = cnt"
    using split st by auto
  have later: "\<forall>(d', st') \<in> set post. d \<le> d'"
    using trend_sorted[of ts] unfolding split by (auto simp: sorted_append)
  show "\<forall>(d', st') \<in> set (daily_sales_trend ts).
              revenue st' \<le> rv \<and> (revenue st' = rv \<longrightarrow> d \<le> d')"
    unfolding split using st pre post later by fastforce
qed

theorem find_peak_sales_day_first_maximum_witness:
  "find_peak_sales_day peak_sample = Some (''2024-01-02'', 80, 2)
   \<and> (\<exists>st. (''2024-01-02'', st) \<in> set (daily_sales_trend peak_sample)
          \<and> revenue st = 80 \<and> transaction_count st = 2)
   \<and> find_peak_sales_day tie_sample = Some (''2024-01-01'', 40, 1)
   \<and> daily_sales_trend tie_sample =
       [(''2024-01-01'', \<lparr> transaction_count = 1, revenue = 40, unique_customers = 1 \<rparr>),
        (''2024-01-03'', \<lparr> transaction_count = 1, revenue = 40, unique_customers = 1 \<rparr>)]
   \<and> strip (py_str (dict_get (sale [] 1 1 ''C1'') ''Date'' (VStr []))) = []
   \<and> find_peak_sales_day [sale [] 1 1 ''C1''] = None"
  using find_peak_sales_day_first_maximum [of peak_sample "''2024-01-02''" 80 2]
    find_peak_sales_day_first_maximum [of "[sale [] 1 1 ''C1'']"]
  by (simp add: peak_sample_peak tie_sample_peak tie_sample_trend undated_sale)

subsection \<open>Catalog enrichment\<close>

lemma digits_val_snoc:
  "is_digit c \<Longrightarrow> digits_val (ds @ [c]) = 10 * digits_val ds + digit_val c"
  by (simp add: digits_val_def)

lemma digits_val_decimal:
  assumes "\<forall>c \<in> set ds. is_digit c"
  shows "digits_val ds = decimal_value ds"
  using assms
proof (induction ds rule: rev_induct)
  case Nil
  show ?case by (simp add: digits_val_def decimal_value_def)
next
  case (snoc c ds)
  then have IH: "digits_val ds = decimal_value ds" and c: "is_digit c" by simp_all
  have "decimal_value (ds @ [c]) =
      (\<Sum>i<length ds. digit_val ((ds @ [c]) ! i) * 10 ^ (length ds - i)) + digit_val c"
    by (simp add: decimal_value_def)
  also have "(\<Sum>i<length ds. digit_val ((ds @ [c]) ! i) * 10 ^ (length ds - i))
      = (\<Sum>i<length ds. 10 * (digit_val (ds ! i) * 10 ^ (length ds - Suc i)))"
  proof (rule sum.cong)
    fix i assume "i \<in> {..<length ds}"
    then have i: "i < length ds" by simp
    then have "length ds - i = Suc (length ds - Suc i)" by simp
    then have "(10::nat) ^ (length ds - i) = 10 * 10 ^ (length ds - Suc i)" by simp
    then show "digit_val ((ds @ [c]) ! i) * 10 ^ (length ds - i)
        = 10 * (digit_val (ds ! i) * 10 ^ (length ds - Suc i))"
      using i by (simp add: nth_append)
  qed simp
  also have "\<dots> = 10 * decimal_value ds"
    by (simp add: decimal_value_def sum_distrib_left)
  finally show ?case using IH c by (simp add: digits_val_snoc)
qed

lemma enrich_record_other_fields:
  "k \<notin> api_keys \<Longrightarrow> enrich_record m t k = t k"
  by (simp add: enrich_record_def Let_def api_keys_def split: option.splits)

text \<open>
  Claim C8. \<open>enrich_sales_data\<close> enriches every record on its own and returns a result for
  every input (writing the side-file cannot make it fail). The numeric id of a record is
  the decimal number spelled by all the digit characters of its \<open>ProductID\<close>, in order.
  When there is at least one digit and that number is a key of the mapping, the record gets
  the category, brand and rating of the mapping's entry and \<open>API_Match = True\<close>; otherwise
  it gets \<open>None\<close> for the three fields and \<open>API_Match = False\<close>. The other fields of the
  record stay as they are.
\<close>

theorem enrich_sales_data_matches_by_digits:
  "fst (enrich_sales_data ts product_mapping fs) = map (enrich_record product_mapping) ts
   \<and> (let digits = filter is_digit (py_str (dict_get t ''ProductID'' (VStr [])));
           r = enrich_record product_mapping t
       in (case (if digits = [] then None else product_mapping (int (decimal_value digits))) of
             Some info \<Rightarrow>
               r ''API_Category'' = Some (dict_get info ''category'' VNone)
               \<and> r ''API_Brand'' = Some (dict_get info ''brand'' VNone)
               \<and> r ''API_Rating'' = Some (dict_get info ''rating'' VNone)
               \<and> r ''API_Match'' = Some (VBool True)
           | None \<Rightarrow>
               r ''API_Category'' = Some VNone \<and> r ''API_Brand'' = Some VNone
               \<and> r ''API_Rating'' = Some VNone \<and> r ''API_Match'' = Some (VBool False))
          \<and> (\<forall>k. k \<notin> api_keys \<longrightarrow> r k = t k))"
proof -
  let ?digits = "filter is_digit (py_str (dict_get t ''ProductID'' (VStr [])))"
  have dv: "digits_val ?digits = decimal_value ?digits"
    by (rule digits_val_decimal) simp
  have id: "extract_numeric_product_id (dict_get t ''ProductID'' (VStr [])) =
      (if ?digits = [] then None else Some (int (decimal_value ?digits)))"
    by (simp add: extract_numeric_product_id_def Let_def dv)
  have "fst (enrich_sales_data ts product_mapping fs) = map (enrich_record product_mapping) ts"
    by (simp add: enrich_sales_data_def Let_def)
  moreover have "\<forall>k. k \<notin> api_keys \<longrightarrow> enrich_record product_mapping t k = t k"
    by (simp add: enrich_record_other_fields)
  moreover have "case (if ?digits = [] then None else product_mapping (int (decimal_value ?digits))) of
             Some info \<Rightarrow>
               enrich_record product_mapping t ''API_Category'' = Some (dict_get info ''category'' VNone)
               \<and> enrich_record product_mapping t ''API_Brand'' = Some (dict_get info ''brand'' VNone)
               \<and> enrich_record product_mapping t ''API_Rating'' = Some (dict_get info ''rating'' VNone)
               \<and> enrich_record product_mapping t ''API_Match'' = Some (VBool True)
           | None \<Rightarrow>
               enrich_record product_mapping t ''API_Category'' = Some VNone
               \<and> enrich_record product_mapping t ''API_Brand'' = Some VNone
               \<and> enrich_record product_mapping t ''API_Rating'' = Some VNone
               \<and> enrich_record product_mapping t ''API_Match'' = Some (VBool False)"
    unfolding enrich_record_def id by (simp add: Let_def split: option.splits)
  ultimately show ?thesis by (simp add: Let_def)
qed

lemma sample_digits:
  "filter is_digit (py_str (dict_get txn_widget ''ProductID'' (VStr []))) = ''100''"
  "filter is_digit (py_str (dict_get txn_spread ''ProductID'' (VStr []))) = ''100''"
  "filter is_digit (py_str (dict_get txn_gadget ''ProductID'' (VStr []))) = ''999''"
  "filter is_digit (py_str (dict_get txn_no_digits ''ProductID'' (VStr []))) = []"
  by (simp_all add: txn_widget_def txn_gadget_def txn_spread_def txn_no_digits_def dict_get_def
      py_str_def is_digit_def)

lemma sample_ids: "decimal_value ''100'' = 100" "decimal_value ''999'' = 999"
proof -
  have "digits_val ''100'' = decimal_value ''100''" "digits_val ''999'' = decimal_value ''999''"
    by (rule digits_val_decimal, simp add: is_digit_def)+
  then show "decimal_value ''100'' = 100" "decimal_value ''999'' = 999"
    by (simp_all add: digits_val_def is_digit_def digit_val_def)
qed

lemma sample_catalog_entries:
  "sample_catalog 100 = Some (map_of
     [(''title'', VStr ''Block set''), (''category'', VStr ''Toys''), (''brand'', VStr ''Acme''),
      (''rating'', VFloat (9 / 2))])"
  "sample_catalog 999 = None"
  by (simp_all add: sample_catalog_def)

theorem enrich_sales_data_matches_by_digits_witness:
  "enrich_record sample_catalog txn_widget ''API_Match'' = Some (VBool True)
   \<and> enrich_record sample_catalog txn_widget ''API_Category'' = Some (VStr ''Toys'')
   \<and> enrich_record sample_catalog txn_widget ''API_Brand'' = Some (VStr ''Acme'')
   \<and> enrich_record sample_catalog txn_widget ''API_Rating'' = Some (VFloat (9 / 2))
   \<and> enrich_record sample_catalog txn_spread ''API_Match'' = Some (VBool True)
   \<and> enrich_record sample_catalog txn_gadget ''API_Match'' = Some (VBool False)
   \<and> enrich_record sample_catalog txn_gadget ''API_Category'' = Some VNone
   \<and> enrich_record sample_catalog txn_no_digits ''API_Match'' = Some (VBool False)
   \<and> enrich_record sample_catalog txn_no_digits ''API_Rating'' = Some VNone
   \<and> ''Region'' \<notin> api_keys
   \<and> enrich_record sample_catalog txn_widget ''Region'' = txn_widget ''Region''"
  using enrich_sales_data_matches_by_digits [of "[txn_widget]" sample_catalog Map.empty txn_widget]
    enrich_sales_data_matches_by_digits [of "[txn_widget]" sample_catalog Map.empty txn_spread]
    enrich_sales_data_matches_by_digits [of "[txn_widget]" sample_catalog Map.empty txn_gadget]
    enrich_sales_data_matches_by_digits [of "[txn_widget]" sample_catalog Map.empty txn_no_digits]
  apply (simp add: Let_def sample_digits sample_ids sample_catalog_entries)
  apply (simp add: dict_get_def api_keys_def)
  done

subsection \<open>The enriched side-file\<close>

lemma digit_chars: "digit_char 0 = CHR ''0''" "digit_char 2 = CHR ''2''" "digit_char 5 = CHR ''5''" "digit_char 1 = CHR ''1''"
  by (simp_all add: digit_char_def)

lemma widget_id: "extract_numeric_product_id (dict_get txn_widget ''ProductID'' (VStr [])) = Some 100"
proof -
  have "digits_val ''100'' = 100" by (simp add: digits_val_def is_digit_def digit_val_def)
  then show ?thesis by (simp add: extract_numeric_product_id_def Let_def sample_digits)
qed

lemma enriched_widget_eq:
  "enriched_widget = txn_widget(''API_Category'' \<mapsto> VStr ''Toys'', ''API_Brand'' \<mapsto> VStr ''Acme'',
      ''API_Rating'' \<mapsto> VFloat (9 / 2), ''API_Match'' \<mapsto> VBool True)"
  unfolding enriched_widget_def enrich_record_def widget_id
  by (simp add: sample_catalog_def dict_get_def)

lemma enriched_widget_fields:
  "enriched_widget ''TransactionID'' = Some (VStr ''T1'')"
  "enriched_widget ''Date'' = Some (VStr ''2024-01-01'')"
  "enriched_widget ''ProductID'' = Some (VStr ''P100'')"
  "enriched_widget ''ProductName'' = Some (VStr ''Widget'')"
  "enriched_widget ''Quantity'' = Some (VInt 2)"
  "enriched_widget ''UnitPrice'' = Some (VFloat 10)"
  "enriched_widget ''CustomerID'' = Some (VStr ''C1'')"
  "enriched_widget ''Region'' = Some (VStr ''North'')"
  "enriched_widget ''API_Category'' = Some (VStr ''Toys'')"
  "enriched_widget ''API_Brand'' = Some (VStr ''Acme'')"
  "enriched_widget ''API_Rating'' = Some (VFloat (9 / 2))"
  "enriched_widget ''API_Match'' = Some (VBool True)"
  by (simp_all add: enriched_widget_eq txn_widget_def)

lemma floor_numeral_div:
  "\<lfloor>(numeral a :: rat) / numeral b\<rfloor> = numeral a div numeral b"
  using floor_divide_of_int_eq[of "numeral a" "numeral b", where ?'a = rat] by simp

lemma float_reprs: "float_repr 10 = ''10.0''" "float_repr (9 / 2) = ''4.5''"
  by (simp_all add: float_repr_def Let_def nat_digits.simps digit_char_def frac_digits.simps
      floor_numeral_div)

lemma enriched_widget_row:
  "enriched_row enriched_widget =
     Inr [''T1'', ''2024-01-01'', ''P100'', ''Widget'', ''2'', ''10.0'', ''C1'', ''North'', ''Toys'',
          ''Acme'', ''4.5'', ''True'']"
  by (simp add: enriched_row_def Let_def dict_get_def enriched_widget_fields py_str_def py_int_def
      py_float_def py_bool_def api_field_def str_int_def nat_digits.simps digit_char_def float_reprs
      strip_def lstrip_def rstrip_def is_space_def)

lemma one_line_read_back:
  "read_back one_line_file =
     [[''TransactionID'', ''Date'', ''ProductID'', ''ProductName'', ''Quantity'', ''UnitPrice'',
       ''CustomerID'', ''Region'', ''API_Category'', ''API_Brand'', ''API_Rating'', ''API_MatchT1'',
       ''2024-01-01'', ''P100'', ''Widget'', ''2'', ''10.0'', ''C1'', ''North'', ''Toys'', ''Acme'',
       ''4.5'', ''True'']]"
  by code_simp

text \<open>
  Claim C3, at the enriched record of the sample line. The source appends the empty string
  to the header and to the row, so the file it writes holds no line feed: header and record
  run together in one unterminated line of 23 columns, whose 12th column is
  \<open>API_MatchT1\<close> rather than the record's \<open>True\<close>.
\<close>

theorem save_enriched_data_writes_one_line:
  "save_enriched_data [enriched_widget] ''data/enriched_sales_data.txt'' Map.empty =
     (Inr (), [''data/enriched_sales_data.txt'' \<mapsto> one_line_file])
   \<and> enriched_widget ''API_Match'' = Some (VBool True)
   \<and> read_back one_line_file =
     [[''TransactionID'', ''Date'', ''ProductID'', ''ProductName'', ''Quantity'', ''UnitPrice'',
       ''CustomerID'', ''Region'', ''API_Category'', ''API_Brand'', ''API_Rating'', ''API_MatchT1'',
       ''2024-01-01'', ''P100'', ''Widget'', ''2'', ''10.0'', ''C1'', ''North'', ''Toys'', ''Acme'',
       ''4.5'', ''True'']]
   \<and> LF \<notin> set one_line_file"
proof -
  have "save_enriched_data [enriched_widget] ''data/enriched_sales_data.txt'' Map.empty =
     (Inr (), [''data/enriched_sales_data.txt'' \<mapsto> one_line_file])"
    by (simp add: save_enriched_data_def enriched_widget_row enriched_header_def line_end_def
        one_line_file_def)
  moreover have "LF \<notin> set one_line_file"
    by (simp add: one_line_file_def LF_def)
  ultimately show ?thesis
    using one_line_read_back enriched_widget_fields(12) by simp
qed

subsection \<open>Reading the input file\<close>

lemma header_is_header: "looks_like_header header_line"
  by (simp add: looks_like_header_def header_line_def ustr_def u_strip_def u_is_space_def
      EXPECTED_HEADERS_def)

lemma sample_line_strip: "u_strip sample_line \<noteq> []" "u_strip header_line \<noteq> []"
  by (simp_all add: sample_line_def header_line_def ustr_def u_strip_def u_is_space_def)

lemma no_bom: "lstrip_chars [BOM] header_line = header_line"
  by (simp add: lstrip_chars_def header_line_def ustr_def BOM_def)

lemma rstrip_nothing: "rstrip_chars [] s = s"
  by (simp add: rstrip_chars_def)

text \<open>
  Claim C9, at a file of a header line and the sample line. \<open>rstrip\<close> is called with the
  empty string and strips nothing: the line that \<open>read_sales_data\<close> returns still ends
  with its line feed, a whitespace character.
\<close>

theorem read_sales_data_keeps_line_end:
  "read_sales_data [''data/sales_data.txt'' \<mapsto> [header_line, sample_line]] ''data/sales_data.txt''
     = Inr [sample_line]
   \<and> last sample_line = 10 \<and> u_is_space 10"
  by (simp add: read_sales_data_def clean_lines_def no_bom sample_line_strip header_is_header
      rstrip_nothing) (simp add: sample_line_def u_is_space_def)

subsection \<open>The report and the value returned\<close>

lemma zero_formats: "fmt_2f g 0 = ''0.00''" "str_nat 0 = ''0''"
  by (simp_all add: fmt_2f_def round_half_even_def Let_def nat_digits.simps digit_char_def
      str_nat_def str_int_def)

lemma empty_aggregates:
  "calculate_total_revenue [] = 0" "region_wise_sales [] = []" "top_selling_products [] n = []"
  "customer_analysis [] = []" "daily_sales_trend [] = []" "find_peak_sales_day [] = None"
  "low_performing_products [] thr = []" "date_range [] = (''N/A'', ''N/A'')"
  "not_enriched_labels [] = []"
  by (simp_all add: calculate_total_revenue_def region_wise_sales_def top_selling_products_def
      product_rows_def customer_analysis_def daily_sales_trend_def find_peak_sales_day_def
      low_performing_products_def date_range_def not_enriched_labels_def)

lemma empty_report_lines: "report_lines ''2024-01-01 00:00:00'' [] [] ''$'' 10 = empty_report"
  unfolding report_lines_def empty_aggregates Let_def
  apply (simp add: zero_formats fmt_money_def ljust_def rjust_def empty_report_def)
  apply (simp add: eval_nat_numeral)
  done

lemma sample_path: "abspath ''/home/user'' ''output/sales_report.txt'' = ''/home/user/output/sales_report.txt''"
  by code_simp

lemma startswith_slash: "startswith s ''/'' \<longleftrightarrow> (\<exists>rest. s = CHR ''/'' # rest)"
  by (cases s) (auto simp: startswith_def)

lemma normpath_absolute:
  assumes "startswith path ''/''"
  shows "startswith (normpath path) ''/''"
proof -
  from assms obtain rest where path: "path = CHR ''/'' # rest"
    by (auto simp: startswith_slash)
  define k :: nat where
    "k = (if startswith path ''//'' \<and> \<not> startswith path ''///'' then 2 else 1)"
  have "k = Suc (k - 1)" by (simp add: k_def)
  then obtain j where k: "k = Suc j" by blast
  have "normpath path =
      replicate k (CHR ''/'') @ join ''/'' (normalise_comps True [] (split_on (CHR ''/'') path))"
    using assms path by (simp add: normpath_def Let_def k_def)
  then show ?thesis by (simp add: k startswith_slash)
qed

lemma abspath_absolute:
  assumes "startswith wd ''/''"
  shows "startswith (abspath wd path) ''/''"
proof -
  from assms obtain rest where "wd = CHR ''/'' # rest" by (auto simp: startswith_slash)
  then have "startswith (wd @ path) ''/''" "startswith (wd @ ''/'' @ path) ''/''"
    by (simp_all add: startswith_slash)
  then show ?thesis
    by (simp add: abspath_def normpath_absolute)
qed

lemma join_Cons: "join sep (x # xs) = x @ (if xs = [] then [] else sep @ join sep xs)"
  by (cases xs) simp_all

lemma report_lines_first:
  "\<exists>rest. report_lines ts txns etxns cur thr = replicate 44 (CHR ''='') # rest"
  unfolding report_lines_def Let_def by (simp add: split_beta)

lemma render_first_char: "\<exists>rest. render ts txns etxns cur thr = CHR ''='' # rest"
proof -
  obtain rest where "report_lines ts txns etxns cur thr = replicate 44 (CHR ''='') # rest"
    using report_lines_first by blast
  moreover have "replicate 44 (CHR ''='') = CHR ''='' # replicate 43 (CHR ''='')"
    by (simp add: eval_nat_numeral)
  ultimately show ?thesis by (simp add: render_def join_Cons)
qed

lemma render_ends_with_line_feed: "\<exists>body. render ts txns etxns cur thr = body @ [LF]"
  by (simp add: render_def)

text \<open>
  Claim C4, amended. \<open>generate_sales_report\<close> writes the report text to the target path
  and returns the absolute path of that file. When the working directory is absolute, the
  value returned starts with a slash, while the report text starts with the separator line,
  so the value returned is never the text that was written.
\<close>

theorem generate_sales_report_returns_path:
  "generate_sales_report env txns etxns output_file cur thr fs =
     (abspath (cwd env) output_file,
      fs(output_file \<mapsto> render (generated_ts env) txns (case etxns of None \<Rightarrow> [] | Some es \<Rightarrow> es) cur thr))
   \<and> (startswith (cwd env) ''/'' \<longrightarrow>
        startswith (fst (generate_sales_report env txns etxns output_file cur thr fs)) ''/''
        \<and> Some (fst (generate_sales_report env txns etxns output_file cur thr fs))
            \<noteq> snd (generate_sales_report env txns etxns output_file cur thr fs) output_file)"
proof -
  let ?text = "render (generated_ts env) txns (case etxns of None \<Rightarrow> [] | Some es \<Rightarrow> es) cur thr"
  have eq: "generate_sales_report env txns etxns output_file cur thr fs =
     (abspath (cwd env) output_file, fs(output_file \<mapsto> ?text))"
    by (simp add: generate_sales_report_def Let_def)
  have "abspath (cwd env) output_file \<noteq> ?text" if "startswith (cwd env) ''/''"
  proof -
    from abspath_absolute[OF that] obtain r1 where "abspath (cwd env) output_file = CHR ''/'' # r1"
      by (auto simp: startswith_slash)
    moreover obtain r2 where "?text = CHR ''='' # r2" using render_first_char by blast
    ultimately show ?thesis by simp
  qed
  then show ?thesis using eq abspath_absolute[of "cwd env" output_file] by simp
qed

theorem generate_sales_report_returns_path_witness:
  "startswith (cwd sample_env) ''/''
   \<and> fst (generate_sales_report sample_env [] None ''output/sales_report.txt'' ''$'' 10 Map.empty)
       = ''/home/user/output/sales_report.txt''
   \<and> snd (generate_sales_report sample_env [] None ''output/sales_report.txt'' ''$'' 10 Map.empty)
         ''output/sales_report.txt''
       = Some (join [LF] empty_report @ [LF])"
  using generate_sales_report_returns_path
      [of sample_env "[]" None "''output/sales_report.txt''" "''$''" 10 Map.empty]
  by (simp add: sample_env_def sample_path render_def empty_report_lines startswith_def)

text \<open>
  The claim as stated fails for the empty record list: the value returned is the path
  \<open>/home/user/output/sales_report.txt\<close>, and the text written is the report.
\<close>

theorem generate_sales_report_returns_text_counterexample:
  "fst (generate_sales_report sample_env [] None ''output/sales_report.txt'' ''$'' 10 Map.empty)
       = ''/home/user/output/sales_report.txt''
   \<and> snd (generate_sales_report sample_env [] None ''output/sales_report.txt'' ''$'' 10 Map.empty)
         ''output/sales_report.txt''
       = Some (join [LF] empty_report @ [LF])
   \<and> join [LF] empty_report @ [LF] \<noteq> ''/home/user/output/sales_report.txt''"
  by (simp add: generate_sales_report_def Let_def sample_env_def sample_path render_def
      empty_report_lines empty_report_def)

end
